theory Spec2Isabelle
  imports Main "HOL-Library.Sublist" "HOL-Library.AList"
begin

section \<open>Python values shared by the two scripts\<close>

text \<open>
  Text is a list of 8-bit characters, read as code points below 256. On that range
  \<open>isspace\<close> and \<open>lower_char\<close> are Python's \<^verbatim>\<open>str.isspace\<close> and \<^verbatim>\<open>str.lower\<close>.
\<close>

definition isspace :: "char \<Rightarrow> bool" where
  "isspace c =
     (let n = (of_char c :: nat)
      in (9 \<le> n \<and> n \<le> 13) \<or> (28 \<le> n \<and> n \<le> 32) \<or> n = 133 \<or> n = 160)"

definition is_upper :: "char \<Rightarrow> bool" where
  "is_upper c =
     (let n = (of_char c :: nat)
      in (65 \<le> n \<and> n \<le> 90) \<or> (192 \<le> n \<and> n \<le> 222 \<and> n \<noteq> 215))"

definition lower_char :: "char \<Rightarrow> char" where
  "lower_char c = (if is_upper c then char_of ((of_char c :: nat) + 32) else c)"

definition lower :: "string \<Rightarrow> string" where
  "lower s = map lower_char s"

text \<open>\<^verbatim>\<open>s.strip()\<close>: leading and trailing whitespace removed.\<close>

definition strip :: "string \<Rightarrow> string" where
  "strip s = rev (dropWhile isspace (rev (dropWhile isspace s)))"

text \<open>\<^verbatim>\<open>t in s\<close> on strings: \<open>t\<close> occurs in \<open>s\<close> as a contiguous block.\<close>

fun starts_with :: "string \<Rightarrow> string \<Rightarrow> bool" where
  "starts_with [] s = True"
| "starts_with (a # t) [] = False"
| "starts_with (a # t) (b # s) = (a = b \<and> starts_with t s)"

fun contains :: "string \<Rightarrow> string \<Rightarrow> bool" where
  "contains t [] = (t = [])"
| "contains t (b # s) = (starts_with t (b # s) \<or> contains t s)"

text \<open>\<^verbatim>\<open>s.endswith(t)\<close>.\<close>

definition endswith :: "string \<Rightarrow> string \<Rightarrow> bool" where
  "endswith s t = (length t \<le> length s \<and> drop (length s - length t) s = t)"

definition quoted :: "string \<Rightarrow> string" where
  "quoted s = CHR 0x27 # s @ [CHR 0x27]"

text \<open>
  What \<^verbatim>\<open>json.load\<close> returns. An object is its list of members in order, one binding
  per key, read with \<open>map_of\<close>. A float carries its literal; no operation here looks at it.
\<close>

datatype json =
    JNull
  | JBool bool
  | JInt int
  | JFloat string
  | JString string
  | JArray "json list"
  | JObject "(string \<times> json) list"

fun type_name :: "json \<Rightarrow> string" where
  "type_name JNull = ''NoneType''"
| "type_name (JBool b) = ''bool''"
| "type_name (JInt i) = ''int''"
| "type_name (JFloat f) = ''float''"
| "type_name (JString s) = ''str''"
| "type_name (JArray xs) = ''list''"
| "type_name (JObject kvs) = ''dict''"

text \<open>
  The subclasses of \<^verbatim>\<open>Exception\<close> that occur, each with what \<^verbatim>\<open>str(e)\<close> needs.
  \<^verbatim>\<open>SystemExit\<close> derives from \<^verbatim>\<open>BaseException\<close> only, so \<^verbatim>\<open>except Exception\<close>
  lets it through.
\<close>

datatype py_exc =
    JSONDecodeError string
  | AttributeError string string
  | KeyError string
  | TypeError string
  | EOFError
  | OtherException string

datatype raised = SystemExit int | Exception py_exc

fun str_exc :: "py_exc \<Rightarrow> string" where
  "str_exc (JSONDecodeError m) = m"
| "str_exc (AttributeError t a) = quoted t @ '' object has no attribute '' @ quoted a"
| "str_exc (KeyError k) = quoted k"
| "str_exc (TypeError m) = m"
| "str_exc EOFError = ''EOF when reading a line''"
| "str_exc (OtherException m) = m"

text \<open>The interpreter's exit status when \<open>r\<close> reaches the top level.\<close>

fun process_exit_status :: "raised \<Rightarrow> int" where
  "process_exit_status (SystemExit c) = c"
| "process_exit_status (Exception e) = 1"

text \<open>\<^verbatim>\<open>obj.get(key, default)\<close>: only a dict has the method.\<close>

fun py_get :: "json \<Rightarrow> string \<Rightarrow> json \<Rightarrow> py_exc + json" where
  "py_get (JObject kvs) k d = Inr (case map_of kvs k of Some v \<Rightarrow> v | None \<Rightarrow> d)"
| "py_get v k d = Inl (AttributeError (type_name v) ''get'')"


section \<open>The format-on-save hook\<close>

text \<open>
  The hook's surroundings: what is on standard input, which paths exist, what is on the
  execution path, and how a subprocess with a given argument vector ends.
\<close>

datatype stdin_text =
    WellFormed json
  | MalformedJSON string
  | Unreadable string

datatype run_outcome =
    CompletedProcess int string string
  | TimeoutExpired
  | FileNotFoundError
  | RunFailed string

record hook_env =
  path_exists :: "string \<Rightarrow> string + bool"
  which :: "string \<Rightarrow> string option"
  subprocess_run :: "string list \<Rightarrow> run_outcome"

datatype stream = Stdout | Stderr

record hook_io =
  printed :: "(stream \<times> string) list"
  subprocess_calls :: "string list list"

definition no_io :: hook_io where
  "no_io = \<lparr>printed = [], subprocess_calls = []\<rparr>"

definition print_to :: "stream \<Rightarrow> string \<Rightarrow> hook_io \<Rightarrow> hook_io" where
  "print_to st line io = io\<lparr>printed := printed io @ [(st, line)]\<rparr>"

text \<open>\<^verbatim>\<open>json.load(sys.stdin)\<close>\<close>

fun json_load :: "stdin_text \<Rightarrow> py_exc + json" where
  "json_load (WellFormed v) = Inr v"
| "json_load (MalformedJSON m) = Inl (JSONDecodeError m)"
| "json_load (Unreadable m) = Inl (OtherException m)"

definition check_csharpier_installed :: "hook_env \<Rightarrow> bool" where
  "check_csharpier_installed env = (which env ''dotnet'' \<noteq> None)"

definition run_csharpier :: "hook_env \<Rightarrow> string \<Rightarrow> hook_io \<Rightarrow> (bool \<times> string) \<times> hook_io" where
  "run_csharpier env file_path io =
     (let argv = [''dotnet'', ''csharpier'', file_path];
          io' = io\<lparr>subprocess_calls := subprocess_calls io @ [argv]\<rparr>
      in (case subprocess_run env argv of
            CompletedProcess returncode out err \<Rightarrow>
              if returncode = 0 then (True, ''Formatted: '' @ file_path)
              else
                (let stderr = strip err
                 in if contains ''csharpier'' (lower stderr) \<and> contains ''not found'' (lower stderr)
                    then (False, ''CSharpier not installed'')
                    else (False, ''Format failed: '' @ (if stderr \<noteq> [] then stderr else out)))
          | TimeoutExpired \<Rightarrow> (False, ''Timeout formatting: '' @ file_path)
          | FileNotFoundError \<Rightarrow> (False, ''dotnet CLI not found'')
          | RunFailed m \<Rightarrow> (False, ''Error: '' @ m),
          io'))"

text \<open>\<^verbatim>\<open>data.get("tool_input", {}).get("file_path", "")\<close>\<close>

definition extract_file_path :: "json \<Rightarrow> py_exc + json" where
  "extract_file_path data =
     (case py_get data ''tool_input'' (JObject []) of
        Inl e \<Rightarrow> Inl e
      | Inr tool_input \<Rightarrow> py_get tool_input ''file_path'' (JString []))"

text \<open>
  The body of the \<^verbatim>\<open>try\<close> in \<^verbatim>\<open>main\<close>. Every path through it ends in
  \<^verbatim>\<open>sys.exit(0)\<close> or in an exception, so it yields what was raised.
\<close>

definition main_try :: "hook_env \<Rightarrow> stdin_text \<Rightarrow> hook_io \<Rightarrow> raised \<times> hook_io" where
  "main_try env inp io =
     (case json_load inp of
        Inl e \<Rightarrow> (Exception e, io)
      | Inr data \<Rightarrow>
          (case extract_file_path data of
             Inl e \<Rightarrow> (Exception e, io)
           | Inr (JString file_path) \<Rightarrow>
               if \<not> endswith file_path ''.cs'' then (SystemExit 0, io)
               else
                 (case path_exists env file_path of
                    Inl m \<Rightarrow> (Exception (OtherException m), io)
                  | Inr False \<Rightarrow> (SystemExit 0, io)
                  | Inr True \<Rightarrow>
                      if \<not> check_csharpier_installed env
                      then (SystemExit 0,
                            print_to Stderr ''[CSharpier] Warning: dotnet CLI not found. Skipping format.'' io)
                      else
                        (case run_csharpier env file_path io of
                           ((success, message), io1) \<Rightarrow>
                             (SystemExit 0,
                              if success then print_to Stdout (''[CSharpier] '' @ message) io1
                              else if contains ''not installed'' (lower message)
                              then print_to Stderr
                                     ''[CSharpier] Warning: CSharpier not installed. Install with: dotnet tool install -g csharpier''
                                     io1
                              else print_to Stderr (''[CSharpier] Warning: '' @ message) io1)))
           | Inr v \<Rightarrow> (Exception (AttributeError (type_name v) ''endswith''), io)))"

text \<open>
  \<^verbatim>\<open>main\<close>: the \<^verbatim>\<open>try\<close> body under its two handlers, tried in the source's order.
\<close>

definition main :: "hook_env \<Rightarrow> stdin_text \<Rightarrow> raised \<times> hook_io" where
  "main env inp =
     (case main_try env inp no_io of
        (Exception (JSONDecodeError m), io) \<Rightarrow>
          (SystemExit 0, print_to Stderr ''[CSharpier] Warning: Invalid JSON input'' io)
      | (Exception e, io) \<Rightarrow>
          (SystemExit 0, print_to Stderr (''[CSharpier] Warning: '' @ str_exc e) io)
      | (SystemExit c, io) \<Rightarrow> (SystemExit c, io))"

definition hook_exit_status :: "hook_env \<Rightarrow> stdin_text \<Rightarrow> int" where
  "hook_exit_status env inp = process_exit_status (fst (main env inp))"

definition hook_output :: "hook_env \<Rightarrow> stdin_text \<Rightarrow> (stream \<times> string) list" where
  "hook_output env inp = printed (snd (main env inp))"

definition hook_subprocesses :: "hook_env \<Rightarrow> stdin_text \<Rightarrow> string list list" where
  "hook_subprocesses env inp = subprocess_calls (snd (main env inp))"


subsection \<open>Inputs by shape, and example surroundings\<close>

text \<open>The input carries a string path that ends in the target extension.\<close>

definition targets_cs_file :: "stdin_text \<Rightarrow> bool" where
  "targets_cs_file inp =
     (case inp of
        WellFormed data \<Rightarrow>
          (case extract_file_path data of
             Inr (JString p) \<Rightarrow> endswith p ''.cs''
           | _ \<Rightarrow> False)
      | _ \<Rightarrow> False)"

text \<open>
  An object without \<^verbatim>\<open>tool_input\<close>, or whose \<^verbatim>\<open>tool_input\<close> is an object without
  \<^verbatim>\<open>file_path\<close>.
\<close>

definition lacks_file_path :: "json \<Rightarrow> bool" where
  "lacks_file_path data =
     (case data of
        JObject kvs \<Rightarrow>
          (case map_of kvs ''tool_input'' of
             None \<Rightarrow> True
           | Some (JObject tvs) \<Rightarrow> map_of tvs ''file_path'' = None
           | Some _ \<Rightarrow> False)
      | _ \<Rightarrow> False)"

text \<open>
  The value on which \<^verbatim>\<open>.get\<close> is called although it is no dict: the top-level value,
  or a \<^verbatim>\<open>tool_input\<close> that is present.
\<close>

definition non_mapping_receiver :: "json \<Rightarrow> json option" where
  "non_mapping_receiver data =
     (case data of
        JObject kvs \<Rightarrow>
          (case map_of kvs ''tool_input'' of
             None \<Rightarrow> None
           | Some (JObject tvs) \<Rightarrow> None
           | Some v \<Rightarrow> Some v)
      | v \<Rightarrow> Some v)"

text \<open>
  The input has no \<^verbatim>\<open>tool_input\<close> mapping with a \<^verbatim>\<open>file_path\<close> key, whatever else it has.
\<close>

definition no_file_path_entry :: "json \<Rightarrow> bool" where
  "no_file_path_entry data = (lacks_file_path data \<or> non_mapping_receiver data \<noteq> None)"

text \<open>
  The text a generic failure reports when read literally: the captured error text, or the
  output text when there is no error text.
\<close>

definition captured_text :: "string \<Rightarrow> string \<Rightarrow> string" where
  "captured_text out err = (if err = [] then out else err)"

definition edit_event :: "string \<Rightarrow> stdin_text" where
  "edit_event p = WellFormed (JObject [(''tool_input'', JObject [(''file_path'', JString p)])])"

definition example_env :: "bool \<Rightarrow> run_outcome \<Rightarrow> hook_env" where
  "example_env dotnet outcome =
     \<lparr>path_exists = (\<lambda>p. Inr True),
      which = (\<lambda>c. if dotnet \<and> c = ''dotnet'' then Some ''/usr/bin/dotnet'' else None),
      subprocess_run = (\<lambda>argv. outcome)\<rparr>"


section \<open>The plugin scaffolder\<close>

subsection \<open>Subscripts, iteration and append on JSON values\<close>

text \<open>
  \<^verbatim>\<open>obj[key]\<close> with a string key. A dict member that is missing raises \<^verbatim>\<open>KeyError\<close>,
  any other receiver \<^verbatim>\<open>TypeError\<close>.
\<close>

fun py_getitem :: "json \<Rightarrow> string \<Rightarrow> py_exc + json" where
  "py_getitem (JObject kvs) k = (case map_of kvs k of Some v \<Rightarrow> Inr v | None \<Rightarrow> Inl (KeyError k))"
| "py_getitem (JArray xs) k = Inl (TypeError ''list indices must be integers or slices, not str'')"
| "py_getitem (JString s) k = Inl (TypeError ''string indices must be integers'')"
| "py_getitem v k = Inl (TypeError (quoted (type_name v) @ '' object is not subscriptable''))"

text \<open>
  \<^verbatim>\<open>obj[key] = value\<close>: a dict keeps the position of a key it has and puts a new key last.
\<close>

fun py_setitem :: "json \<Rightarrow> string \<Rightarrow> json \<Rightarrow> py_exc + json" where
  "py_setitem (JObject kvs) k v = Inr (JObject (AList.update k v kvs))"
| "py_setitem (JArray xs) k v = Inl (TypeError ''list indices must be integers or slices, not str'')"
| "py_setitem r k v = Inl (TypeError (quoted (type_name r) @ '' object does not support item assignment''))"

text \<open>\<^verbatim>\<open>for p in obj\<close>: the elements of a list, the keys of a dict, the characters of a string.\<close>

fun py_iter :: "json \<Rightarrow> py_exc + json list" where
  "py_iter (JArray xs) = Inr xs"
| "py_iter (JObject kvs) = Inr (map (\<lambda>kv. JString (fst kv)) kvs)"
| "py_iter (JString s) = Inr (map (\<lambda>c. JString [c]) s)"
| "py_iter v = Inl (TypeError (quoted (type_name v) @ '' object is not iterable''))"

text \<open>\<^verbatim>\<open>obj.append(x)\<close>: only a list has the method.\<close>

fun py_append :: "json \<Rightarrow> json \<Rightarrow> py_exc + json" where
  "py_append (JArray xs) x = Inr (JArray (xs @ [x]))"
| "py_append v x = Inl (AttributeError (type_name v) ''append'')"

text \<open>\<^verbatim>\<open>[p["name"] for p in ps]\<close>: the first element without a name raises.\<close>

fun names_of :: "json list \<Rightarrow> py_exc + json list" where
  "names_of [] = Inr []"
| "names_of (p # ps) =
     (case py_getitem p ''name'' of
        Inl e \<Rightarrow> Inl e
      | Inr n \<Rightarrow> (case names_of ps of Inl e \<Rightarrow> Inl e | Inr ns \<Rightarrow> Inr (n # ns)))"


subsection \<open>Paths, the file system and the terminal\<close>

text \<open>
  A path is the list of its segments. \<open>joinpath p s\<close> is \<^verbatim>\<open>p / s\<close>, \<open>parent p\<close> is
  \<^verbatim>\<open>p.parent\<close>. What a path denotes is up to the file system, which the scaffolder reaches
  through four library calls only; they are parameters here, over any type of file system
  states. A call that raises may still have changed the file system.
\<close>

type_synonym path = "string list"

definition parent :: "path \<Rightarrow> path" where
  "parent p = butlast p"

definition joinpath :: "path \<Rightarrow> string \<Rightarrow> path" where
  "joinpath p s = p @ [s]"

record 'fs os =
  os_exists :: "'fs \<Rightarrow> path \<Rightarrow> bool"
  os_copytree :: "path \<Rightarrow> path \<Rightarrow> 'fs \<Rightarrow> py_exc option \<times> 'fs"
  os_load_json :: "'fs \<Rightarrow> path \<Rightarrow> py_exc + json"
  os_dump_json :: "path \<Rightarrow> json \<Rightarrow> 'fs \<Rightarrow> py_exc option \<times> 'fs"

text \<open>
  \<open>os_exists\<close> is \<^verbatim>\<open>Path.exists\<close>, \<open>os_copytree\<close> is \<^verbatim>\<open>shutil.copytree\<close>,
  \<open>os_load_json\<close> is \<^verbatim>\<open>open(p, 'r')\<close> followed by \<^verbatim>\<open>json.load\<close>, and \<open>os_dump_json\<close>
  is \<^verbatim>\<open>open(p, 'w')\<close> followed by \<^verbatim>\<open>json.dump\<close>.

  The terminal is the finite list of lines still to be read and the list of what was
  written. \<^verbatim>\<open>input(prompt)\<close> writes the prompt and takes the next line; at the end of the
  input it raises \<^verbatim>\<open>EOFError\<close>, which the scaffolder never catches. So each of its loops
  is a recursion on the lines left, and a session that never gives a valid answer ends in
  \<^verbatim>\<open>EOFError\<close>.

  What is written is kept as one \<open>message\<close> for each \<^verbatim>\<open>print\<close> statement, or block of
  them that belongs together (the banner, the summary, the closing text), with the values
  that the statement formats into its line.
\<close>

datatype prompt = AskName | AskDescription | AskAuthor | AskVersion | AskProceed | AskRegister

record plugin_info =
  name :: string
  description :: string
  author :: string
  version :: string

datatype message =
    Prompt prompt
  | TemplateNotFound path
  | MarketplaceNotFound path
  | Banner
  | NameEmpty
  | NameHasSpaces
  | DirectoryExists string
  | DescriptionEmpty
  | AuthorEmpty
  | Summary plugin_info
  | PleaseEnterYN
  | Cancelled
  | CreatingDirectory string
  | DirectoryCreated
  | ErrorCreatingDirectory py_exc
  | UpdatingPluginJson
  | PluginJsonUpdated
  | ErrorUpdatingPluginJson py_exc
  | UpdateFailedButCreated
  | RegistrationHeader
  | SkippedRegistration
  | AlreadyInMarketplace string
  | Registered
  | ErrorUpdatingMarketplace py_exc
  | SuccessMessage plugin_info

type_synonym tty = "string list \<times> message list"

record 'fs world =
  files :: 'fs
  stdin :: "string list"
  console :: "message list"

definition say :: "message \<Rightarrow> 'fs world \<Rightarrow> 'fs world" where
  "say m w = w\<lparr>console := console w @ [m]\<rparr>"

definition on_tty :: "(tty \<Rightarrow> 'a \<times> tty) \<Rightarrow> 'fs world \<Rightarrow> 'a \<times> 'fs world" where
  "on_tty f w =
     (case f (stdin w, console w) of
        (r, (ins, out)) \<Rightarrow> (r, w\<lparr>stdin := ins, console := out\<rparr>))"


subsection \<open>\<open>PluginCreator\<close>\<close>

record creator =
  script_dir :: path
  project_root :: path
  template_dir :: path
  marketplace_file :: path

text \<open>\<^verbatim>\<open>__init__\<close>, for a script that lies in directory \<open>dir\<close>.\<close>

definition PluginCreator :: "path \<Rightarrow> creator" where
  "PluginCreator dir =
     \<lparr>script_dir = dir,
      project_root = parent dir,
      template_dir = joinpath dir ''plugin-template'',
      marketplace_file = joinpath (joinpath (parent dir) ''.claude-plugin'') ''marketplace.json''\<rparr>"

definition validate_environment :: "'fs os \<Rightarrow> creator \<Rightarrow> 'fs world \<Rightarrow> bool \<times> 'fs world" where
  "validate_environment os self w =
     (if \<not> os_exists os (files w) (template_dir self)
      then (False, say (TemplateNotFound (template_dir self)) w)
      else if \<not> os_exists os (files w) (marketplace_file self)
      then (False, say (MarketplaceNotFound (marketplace_file self)) w)
      else (True, w))"

text \<open>
  The four input loops of \<open>get_user_input\<close>. \<open>taken\<close> tells whether
  \<^verbatim>\<open>(self.project_root / name).exists()\<close>.
\<close>

fun name_loop :: "(string \<Rightarrow> bool) \<Rightarrow> tty \<Rightarrow> (py_exc + string) \<times> tty" where
  "name_loop taken ([], out) = (Inl EOFError, ([], out @ [Prompt AskName]))"
| "name_loop taken (line # rest, out) =
     (let name = strip line
      in if name = [] then name_loop taken (rest, out @ [Prompt AskName, NameEmpty])
         else if CHR '' '' \<in> set name then name_loop taken (rest, out @ [Prompt AskName, NameHasSpaces])
         else if taken name then name_loop taken (rest, out @ [Prompt AskName, DirectoryExists name])
         else (Inr name, (rest, out @ [Prompt AskName])))"

fun description_loop :: "tty \<Rightarrow> (py_exc + string) \<times> tty" where
  "description_loop ([], out) = (Inl EOFError, ([], out @ [Prompt AskDescription]))"
| "description_loop (line # rest, out) =
     (let description = strip line
      in if description = [] then description_loop (rest, out @ [Prompt AskDescription, DescriptionEmpty])
         else (Inr description, (rest, out @ [Prompt AskDescription])))"

fun author_loop :: "tty \<Rightarrow> (py_exc + string) \<times> tty" where
  "author_loop ([], out) = (Inl EOFError, ([], out @ [Prompt AskAuthor]))"
| "author_loop (line # rest, out) =
     (let author = strip line
      in if author = [] then author_loop (rest, out @ [Prompt AskAuthor, AuthorEmpty])
         else (Inr author, (rest, out @ [Prompt AskAuthor])))"

fun version_input :: "tty \<Rightarrow> (py_exc + string) \<times> tty" where
  "version_input ([], out) = (Inl EOFError, ([], out @ [Prompt AskVersion]))"
| "version_input (line # rest, out) =
     (let version = strip line
      in (Inr (if version = [] then ''1.0.0'' else version), (rest, out @ [Prompt AskVersion])))"

definition get_user_input :: "'fs os \<Rightarrow> creator \<Rightarrow> 'fs world \<Rightarrow> (py_exc + plugin_info) \<times> 'fs world" where
  "get_user_input os self w =
     (let taken = (\<lambda>name. os_exists os (files w) (joinpath (project_root self) name))
      in case on_tty (name_loop taken) (say Banner w) of
           (Inl e, w1) \<Rightarrow> (Inl e, w1)
         | (Inr name', w1) \<Rightarrow>
             (case on_tty description_loop w1 of
                (Inl e, w2) \<Rightarrow> (Inl e, w2)
              | (Inr description', w2) \<Rightarrow>
                  (case on_tty author_loop w2 of
                     (Inl e, w3) \<Rightarrow> (Inl e, w3)
                   | (Inr author', w3) \<Rightarrow>
                       (case on_tty version_input w3 of
                          (Inl e, w4) \<Rightarrow> (Inl e, w4)
                        | (Inr version', w4) \<Rightarrow>
                            (Inr \<lparr>name = name', description = description',
                                   author = author', version = version'\<rparr>, w4)))))"

definition create_plugin_directory ::
    "'fs os \<Rightarrow> creator \<Rightarrow> plugin_info \<Rightarrow> 'fs world \<Rightarrow> path option \<times> 'fs world" where
  "create_plugin_directory os self plugin_info w =
     (let plugin_name = name plugin_info;
          target_dir = joinpath (project_root self) plugin_name;
          w1 = say (CreatingDirectory plugin_name) w
      in case os_copytree os (template_dir self) target_dir (files w1) of
           (None, fs) \<Rightarrow> (Some target_dir, say DirectoryCreated (w1\<lparr>files := fs\<rparr>))
         | (Some e, fs) \<Rightarrow> (None, say (ErrorCreatingDirectory e) (w1\<lparr>files := fs\<rparr>)))"

text \<open>
  The four assignments of \<open>update_plugin_json\<close>. The last one writes into the object that
  is the \<^verbatim>\<open>author\<close> member, so the member changes in place.
\<close>

definition updated_manifest :: "json \<Rightarrow> plugin_info \<Rightarrow> py_exc + json" where
  "updated_manifest plugin_data plugin_info =
     (case py_setitem plugin_data ''name'' (JString (name plugin_info)) of
        Inl e \<Rightarrow> Inl e
      | Inr d1 \<Rightarrow>
          (case py_setitem d1 ''description'' (JString (description plugin_info)) of
             Inl e \<Rightarrow> Inl e
           | Inr d2 \<Rightarrow>
               (case py_setitem d2 ''version'' (JString (version plugin_info)) of
                  Inl e \<Rightarrow> Inl e
                | Inr d3 \<Rightarrow>
                    (case py_getitem d3 ''author'' of
                       Inl e \<Rightarrow> Inl e
                     | Inr a \<Rightarrow>
                         (case py_setitem a ''name'' (JString (author plugin_info)) of
                            Inl e \<Rightarrow> Inl e
                          | Inr a' \<Rightarrow> py_setitem d3 ''author'' a')))))"

definition update_plugin_json ::
    "'fs os \<Rightarrow> path \<Rightarrow> plugin_info \<Rightarrow> 'fs world \<Rightarrow> bool \<times> 'fs world" where
  "update_plugin_json os target_dir plugin_info w =
     (let plugin_json_path = joinpath (joinpath target_dir ''.claude-plugin'') ''plugin.json'';
          w1 = say UpdatingPluginJson w
      in case os_load_json os (files w1) plugin_json_path of
           Inl e \<Rightarrow> (False, say (ErrorUpdatingPluginJson e) w1)
         | Inr plugin_data \<Rightarrow>
             (case updated_manifest plugin_data plugin_info of
                Inl e \<Rightarrow> (False, say (ErrorUpdatingPluginJson e) w1)
              | Inr plugin_data' \<Rightarrow>
                  (case os_dump_json os plugin_json_path plugin_data' (files w1) of
                     (Some e, fs) \<Rightarrow> (False, say (ErrorUpdatingPluginJson e) (w1\<lparr>files := fs\<rparr>))
                   | (None, fs) \<Rightarrow> (True, say PluginJsonUpdated (w1\<lparr>files := fs\<rparr>)))))"

fun register_choice_loop :: "tty \<Rightarrow> (py_exc + string) \<times> tty" where
  "register_choice_loop ([], out) = (Inl EOFError, ([], out @ [Prompt AskRegister]))"
| "register_choice_loop (line # rest, out) =
     (let choice = lower (strip line)
      in if choice \<in> set [''y'', ''n''] then (Inr choice, (rest, out @ [Prompt AskRegister]))
         else register_choice_loop (rest, out @ [Prompt AskRegister, PleaseEnterYN]))"

text \<open>
  \<open>existing_plugins\<close>: the list comprehension over \<^verbatim>\<open>marketplace_data.get("plugins", [])\<close>.
\<close>

definition existing_plugins :: "json \<Rightarrow> py_exc + json list" where
  "existing_plugins marketplace_data =
     (case py_get marketplace_data ''plugins'' (JArray []) of
        Inl e \<Rightarrow> Inl e
      | Inr ps \<Rightarrow> (case py_iter ps of Inl e \<Rightarrow> Inl e | Inr xs \<Rightarrow> names_of xs))"

definition new_plugin_entry :: "plugin_info \<Rightarrow> json" where
  "new_plugin_entry plugin_info =
     JObject [(''name'', JString (name plugin_info)),
              (''source'', JString (''./'' @ name plugin_info)),
              (''description'', JString (description plugin_info))]"

text \<open>
  Lines 156 to 159: the \<^verbatim>\<open>plugins\<close> member is created when missing, then the entry is
  appended to it. The receiver is a dict here, since \<^verbatim>\<open>.get\<close> went through before.
\<close>

definition with_new_entry :: "json \<Rightarrow> json \<Rightarrow> py_exc + json" where
  "with_new_entry marketplace_data entry =
     (case py_getitem marketplace_data ''plugins'' of
        Inl (KeyError k) \<Rightarrow> py_setitem marketplace_data ''plugins'' (JArray [entry])
      | Inl e \<Rightarrow> Inl e
      | Inr ps \<Rightarrow>
          (case py_append ps entry of
             Inl e \<Rightarrow> Inl e
           | Inr ps' \<Rightarrow> py_setitem marketplace_data ''plugins'' ps'))"

definition register_to_marketplace ::
    "'fs os \<Rightarrow> creator \<Rightarrow> plugin_info \<Rightarrow> 'fs world \<Rightarrow> (py_exc + bool) \<times> 'fs world" where
  "register_to_marketplace os self plugin_info w =
     (case on_tty register_choice_loop (say RegistrationHeader w) of
        (Inl e, w1) \<Rightarrow> (Inl e, w1)
      | (Inr choice, w1) \<Rightarrow>
          if choice = ''n'' then (Inr True, say SkippedRegistration w1)
          else
            (case os_load_json os (files w1) (marketplace_file self) of
               Inl e \<Rightarrow> (Inr False, say (ErrorUpdatingMarketplace e) w1)
             | Inr marketplace_data \<Rightarrow>
                 (case existing_plugins marketplace_data of
                    Inl e \<Rightarrow> (Inr False, say (ErrorUpdatingMarketplace e) w1)
                  | Inr existing \<Rightarrow>
                      if JString (name plugin_info) \<in> set existing
                      then (Inr True, say (AlreadyInMarketplace (name plugin_info)) w1)
                      else
                        (case with_new_entry marketplace_data (new_plugin_entry plugin_info) of
                           Inl e \<Rightarrow> (Inr False, say (ErrorUpdatingMarketplace e) w1)
                         | Inr marketplace_data' \<Rightarrow>
                             (case os_dump_json os (marketplace_file self) marketplace_data' (files w1) of
                                (Some e, fs) \<Rightarrow>
                                  (Inr False, say (ErrorUpdatingMarketplace e) (w1\<lparr>files := fs\<rparr>))
                              | (None, fs) \<Rightarrow> (Inr True, say Registered (w1\<lparr>files := fs\<rparr>)))))))"

definition print_success_message :: "plugin_info \<Rightarrow> 'fs world \<Rightarrow> 'fs world" where
  "print_success_message plugin_info w = say (SuccessMessage plugin_info) w"

fun confirm_loop :: "tty \<Rightarrow> (py_exc + string) \<times> tty" where
  "confirm_loop ([], out) = (Inl EOFError, ([], out @ [Prompt AskProceed]))"
| "confirm_loop (line # rest, out) =
     (let confirm = lower (strip line)
      in if confirm \<in> set [''y'', ''n''] then (Inr confirm, (rest, out @ [Prompt AskProceed]))
         else confirm_loop (rest, out @ [Prompt AskProceed, PleaseEnterYN]))"

text \<open>
  \<open>run\<close> returns the status, or raises when the input ends at a prompt.
\<close>

definition run :: "'fs os \<Rightarrow> creator \<Rightarrow> 'fs world \<Rightarrow> (py_exc + int) \<times> 'fs world" where
  "run os self w =
     (case validate_environment os self w of
        (False, w0) \<Rightarrow> (Inr 1, w0)
      | (True, w0) \<Rightarrow>
          (case get_user_input os self w0 of
             (Inl e, w1) \<Rightarrow> (Inl e, w1)
           | (Inr plugin_info, w1) \<Rightarrow>
               (case on_tty confirm_loop (say (Summary plugin_info) w1) of
                  (Inl e, w2) \<Rightarrow> (Inl e, w2)
                | (Inr confirm, w2) \<Rightarrow>
                    if confirm = ''n'' then (Inr 0, say Cancelled w2)
                    else
                      (case create_plugin_directory os self plugin_info w2 of
                         (None, w3) \<Rightarrow> (Inr 1, w3)
                       | (Some target_dir, w3) \<Rightarrow>
                           (case update_plugin_json os target_dir plugin_info w3 of
                              (False, w4) \<Rightarrow> (Inr 1, say UpdateFailedButCreated w4)
                            | (True, w4) \<Rightarrow>
                                (case register_to_marketplace os self plugin_info w4 of
                                   (Inl e, w5) \<Rightarrow> (Inl e, w5)
                                 | (Inr registered, w5) \<Rightarrow>
                                     (Inr 0, print_success_message plugin_info w5)))))))"

subsection \<open>A small file system for the library calls\<close>

text \<open>
  A file system state maps a path to what lies there. A file holds JSON text, kept as the
  value it denotes (\<^verbatim>\<open>json.dump\<close> followed by \<^verbatim>\<open>json.load\<close> gives the value back), or
  other text. \<open>tree_copytree\<close> copies what lies below the source to below the destination;
  it refuses a destination that exists, that lies inside the source, or whose parent is
  missing, and a call that is refused changes nothing.
\<close>

datatype content = JsonText json | OtherText string

datatype node = Dir | File content

type_synonym tree = "path \<Rightarrow> node option"

definition copied_tree :: "path \<Rightarrow> path \<Rightarrow> tree \<Rightarrow> tree" where
  "copied_tree src dst fs = (\<lambda>p. if prefix dst p then fs (src @ drop (length dst) p) else fs p)"

definition tree_copytree :: "path \<Rightarrow> path \<Rightarrow> tree \<Rightarrow> py_exc option \<times> tree" where
  "tree_copytree src dst fs =
     (if fs src \<noteq> Some Dir then (Some (OtherException ''source is not a directory''), fs)
      else if fs dst \<noteq> None then (Some (OtherException ''File exists''), fs)
      else if prefix src dst \<or> fs (parent dst) \<noteq> Some Dir
      then (Some (OtherException ''cannot create destination''), fs)
      else (None, copied_tree src dst fs))"

definition tree_load_json :: "tree \<Rightarrow> path \<Rightarrow> py_exc + json" where
  "tree_load_json fs p =
     (case fs p of
        None \<Rightarrow> Inl (OtherException ''No such file or directory'')
      | Some Dir \<Rightarrow> Inl (OtherException ''Is a directory'')
      | Some (File (OtherText t)) \<Rightarrow> Inl (JSONDecodeError ''Expecting value'')
      | Some (File (JsonText v)) \<Rightarrow> Inr v)"

definition tree_dump_json :: "path \<Rightarrow> json \<Rightarrow> tree \<Rightarrow> py_exc option \<times> tree" where
  "tree_dump_json p v fs =
     (case fs p of
        Some Dir \<Rightarrow> (Some (OtherException ''Is a directory''), fs)
      | Some (File c) \<Rightarrow> (None, fs(p \<mapsto> File (JsonText v)))
      | None \<Rightarrow>
          if fs (parent p) = Some Dir then (None, fs(p \<mapsto> File (JsonText v)))
          else (Some (OtherException ''No such file or directory''), fs))"

definition tree_os :: "tree os" where
  "tree_os =
     \<lparr>os_exists = (\<lambda>fs p. fs p \<noteq> None),
      os_copytree = tree_copytree,
      os_load_json = tree_load_json,
      os_dump_json = tree_dump_json\<rparr>"

subsection \<open>Names by shape, and an example repository\<close>

text \<open>A name free of whitespace, as opposed to free of the space character.\<close>

definition no_whitespace :: "string \<Rightarrow> bool" where
  "no_whitespace s = (\<forall>c \<in> set s. \<not> isspace c)"

definition tab_name :: string where
  "tab_name = ''my'' @ [CHR 0x09] @ ''plugin''"

definition example_creator :: creator where
  "example_creator = PluginCreator [''repo'', ''tools'']"

definition example_manifest :: json where
  "example_manifest =
     JObject [(''name'', JString ''plugin-template''),
              (''description'', JString ''Template''),
              (''version'', JString ''0.1.0''),
              (''author'', JObject [(''name'', JString ''Your Name'')])]"

definition example_entry :: json where
  "example_entry =
     JObject [(''name'', JString ''csharp-plugin''),
              (''source'', JString ''./csharp-plugin''),
              (''description'', JString ''C# tools'')]"

definition example_registry :: json where
  "example_registry =
     JObject [(''name'', JString ''plugins''), (''plugins'', JArray [example_entry])]"

definition example_tree :: tree where
  "example_tree =
     map_of
       [([''repo''], Dir),
        ([''repo'', ''tools''], Dir),
        ([''repo'', ''tools'', ''plugin-template''], Dir),
        ([''repo'', ''tools'', ''plugin-template'', ''README.md''], File (OtherText ''# Template'')),
        ([''repo'', ''tools'', ''plugin-template'', ''.claude-plugin''], Dir),
        ([''repo'', ''tools'', ''plugin-template'', ''.claude-plugin'', ''plugin.json''],
           File (JsonText example_manifest)),
        ([''repo'', ''.claude-plugin''], Dir),
        ([''repo'', ''.claude-plugin'', ''marketplace.json''], File (JsonText example_registry)),
        ([''repo'', ''csharp-plugin''], Dir)]"

definition example_world :: "tree \<Rightarrow> string list \<Rightarrow> tree world" where
  "example_world fs lines = \<lparr>files = fs, stdin = lines, console = []\<rparr>"

text \<open>The session of the scaffold example: the version is left blank, both answers are yes.\<close>

definition my_plugin_session :: "string list" where
  "my_plugin_session = [''my-plugin'', ''Test plugin'', ''Alice'', '''', ''y'', ''y'']"

definition my_plugin_info :: plugin_info where
  "my_plugin_info =
     \<lparr>name = ''my-plugin'', description = ''Test plugin'', author = ''Alice'', version = ''1.0.0''\<rparr>"

definition my_plugin_run :: "path \<Rightarrow> tree \<Rightarrow> (py_exc + int) \<times> tree world" where
  "my_plugin_run dir fs = run tree_os (PluginCreator dir) (example_world fs my_plugin_session)"

text \<open>
  A session whose first three names are refused, one that declines at the summary, and the
  data of a plugin that the example registry already lists.
\<close>

definition retry_session :: "string list" where
  "retry_session =
     [''csharp-plugin'', ''my plugin'', ''   '', '' new-plugin '', ''Demo'', ''Bob'', ''2.0'']"

definition new_plugin_info :: plugin_info where
  "new_plugin_info =
     \<lparr>name = ''new-plugin'', description = ''Demo'', author = ''Bob'', version = ''2.0''\<rparr>"

definition declined_session :: "string list" where
  "declined_session = [''new-plugin'', ''Demo'', ''Bob'', ''2.0'', ''maybe'', '' n '']"

definition listed_plugin_info :: plugin_info where
  "listed_plugin_info =
     \<lparr>name = ''csharp-plugin'', description = ''Again'', author = ''Bob'', version = ''1.0.0''\<rparr>"

text \<open>A repository whose template has no manifest.\<close>

definition bare_tree :: tree where
  "bare_tree =
     map_of
       [([''repo''], Dir),
        ([''repo'', ''tools''], Dir),
        ([''repo'', ''tools'', ''plugin-template''], Dir),
        ([''repo'', ''.claude-plugin''], Dir),
        ([''repo'', ''.claude-plugin'', ''marketplace.json''], File (JsonText example_registry))]"


section \<open>Properties of the hook\<close>

subsection \<open>Text lemmas\<close>

lemma starts_with_prefix: "starts_with t s = prefix t s"
  by (induction t s rule: starts_with.induct) auto

lemma contains_sublist: "contains t s = sublist t s"
  by (induction s) (auto simp: starts_with_prefix sublist_Cons_right)

lemma sublist_dropWhile:
  assumes "t \<noteq> []" "\<not> P (hd t)"
  shows "sublist t (dropWhile P s) = sublist t s"
  using assms
proof (induction s)
  case Nil
  then show ?case by simp
next
  case (Cons x xs)
  show ?case
  proof (cases "P x")
    case True
    with Cons.prems have "\<not> prefix t (x # xs)"
      by (cases t) auto
    with True Cons show ?thesis
      by (simp add: sublist_Cons_right)
  next
    case False
    then show ?thesis by simp
  qed
qed

lemma sublist_strip:
  assumes "t \<noteq> []" "\<not> isspace (hd t)" "\<not> isspace (last t)"
  shows "sublist t (strip s) = sublist t s"
proof -
  have "sublist t (strip s) = sublist (rev t) (dropWhile isspace (rev (dropWhile isspace s)))"
    unfolding strip_def by (simp add: sublist_rev_right)
  also have "\<dots> = sublist (rev t) (rev (dropWhile isspace s))"
    using assms by (intro sublist_dropWhile) (simp_all add: hd_rev)
  also have "\<dots> = sublist t (dropWhile isspace s)"
    by simp
  also have "\<dots> = sublist t s"
    using assms by (intro sublist_dropWhile)
  finally show ?thesis .
qed

lemma isspace_lower_char: "isspace (lower_char c) = isspace c"
  by (auto simp: isspace_def lower_char_def is_upper_def Let_def)

lemma lower_strip: "lower (strip s) = strip (lower s)"
proof -
  have dw: "map lower_char (dropWhile isspace xs) = dropWhile isspace (map lower_char xs)" for xs
    by (induction xs) (auto simp: isspace_lower_char)
  show ?thesis
    unfolding lower_def strip_def by (simp add: rev_map [symmetric] dw)
qed

text \<open>Stripping the error text does not change whether either marker occurs in it.\<close>

lemma contains_lower_strip:
  assumes "t \<noteq> []" "\<not> isspace (hd t)" "\<not> isspace (last t)"
  shows "contains t (lower (strip s)) = contains t (lower s)"
  using assms by (simp add: contains_sublist lower_strip sublist_strip)

lemma markers_strip:
  "contains ''csharpier'' (lower (strip s)) = contains ''csharpier'' (lower s)"
  "contains ''not found'' (lower (strip s)) = contains ''not found'' (lower s)"
  by (rule contains_lower_strip; simp add: isspace_def)+

subsection \<open>Control flow of \<open>main\<close>\<close>

lemma main_raises_exit_zero: "fst (main env inp) = SystemExit 0"
  unfolding main_def main_try_def
  by (auto split: sum.splits json.splits bool.splits prod.splits raised.splits py_exc.splits if_splits)

lemma main_malformed:
  "snd (main env (MalformedJSON m)) =
     \<lparr>printed = [(Stderr, ''[CSharpier] Warning: Invalid JSON input'')], subprocess_calls = []\<rparr>"
  by (simp add: main_def main_try_def no_io_def print_to_def)

lemma main_try_early:
  assumes "\<not> targets_cs_file inp"
  shows "subprocess_calls (snd (main_try env inp io)) = subprocess_calls io"
  using assms unfolding main_try_def targets_cs_file_def
  by (cases inp) (auto split: sum.splits json.splits)

lemma main_keeps_calls: "subprocess_calls (snd (main env inp)) = subprocess_calls (snd (main_try env inp no_io))"
  unfolding main_def
  by (auto simp: print_to_def split: prod.splits raised.splits py_exc.splits)


subsection \<open>The claims on the hook\<close>

text \<open>
  C1. Whatever is on standard input (well-formed JSON of any shape, malformed JSON, input
  whose reading raises), in whatever surroundings, \<open>main\<close> ends in \<^verbatim>\<open>sys.exit(0)\<close>: the
  exit status is 0. On malformed JSON the one line printed is the warning, on the error
  stream, and no subprocess is launched.
\<close>

theorem hook_always_exits_zero:
  "hook_exit_status env inp = 0 \<and>
   hook_output env (MalformedJSON m) = [(Stderr, ''[CSharpier] Warning: Invalid JSON input'')] \<and>
   hook_subprocesses env (MalformedJSON m) = [] \<and>
   hook_exit_status env (MalformedJSON m) = 0"
  by (simp add: hook_exit_status_def hook_output_def hook_subprocesses_def main_raises_exit_zero
        main_malformed)

theorem hook_always_exits_zero_witness:
  "hook_exit_status (example_env True TimeoutExpired) (edit_event ''a.cs'') = 0 \<and>
   hook_output (example_env True TimeoutExpired) (MalformedJSON ''Expecting value'') =
     [(Stderr, ''[CSharpier] Warning: Invalid JSON input'')] \<and>
   hook_subprocesses (example_env True TimeoutExpired) (MalformedJSON ''Expecting value'') = [] \<and>
   hook_exit_status (example_env True TimeoutExpired) (MalformedJSON ''Expecting value'') = 0"
  using hook_always_exits_zero [of "example_env True TimeoutExpired" "edit_event ''a.cs''" "''Expecting value''"]
  by simp

text \<open>
  C2. An input that does not carry a string path ending in \<^verbatim>\<open>.cs\<close> makes the hook launch
  no subprocess and exit with status 0.
\<close>

theorem other_extension_is_noop:
  assumes "\<not> targets_cs_file inp"
  shows "hook_subprocesses env inp = [] \<and> hook_exit_status env inp = 0"
  using assms main_try_early [of inp env no_io]
  by (simp add: hook_subprocesses_def hook_exit_status_def main_keeps_calls main_raises_exit_zero no_io_def)

theorem other_extension_is_noop_witness:
  "\<not> targets_cs_file (edit_event ''notes.txt'') \<and>
   hook_subprocesses (example_env True TimeoutExpired) (edit_event ''notes.txt'') = [] \<and>
   hook_exit_status (example_env True TimeoutExpired) (edit_event ''notes.txt'') = 0"
proof -
  have h: "\<not> targets_cs_file (edit_event ''notes.txt'')"
    by (simp add: targets_cs_file_def edit_event_def extract_file_path_def endswith_def)
  from other_extension_is_noop [OF h, of "example_env True TimeoutExpired"] h
  show ?thesis by simp
qed


text \<open>
  C3 (as amended). When the formatter ends with a nonzero exit code, \<open>run_csharpier\<close>
  reports failure, and the message is \<^verbatim>\<open>CSharpier not installed\<close> exactly when the
  captured error text, lowercased, contains both \<^verbatim>\<open>csharpier\<close> and \<^verbatim>\<open>not found\<close>.
  Otherwise the message is \<^verbatim>\<open>Format failed: \<close> followed by the error text with its
  surrounding whitespace stripped, or by the output text when nothing is left of the error
  text after stripping.
\<close>

theorem run_csharpier_nonzero_exit:
  assumes "subprocess_run env [''dotnet'', ''csharpier'', p] = CompletedProcess rc out err"
    and "rc \<noteq> 0"
  shows "fst (run_csharpier env p io) =
           (False,
            if contains ''csharpier'' (lower err) \<and> contains ''not found'' (lower err)
            then ''CSharpier not installed''
            else ''Format failed: '' @ (if strip err = [] then out else strip err)) \<and>
         (snd (fst (run_csharpier env p io)) = ''CSharpier not installed'' \<longleftrightarrow>
            contains ''csharpier'' (lower err) \<and> contains ''not found'' (lower err))"
  using assms by (simp add: run_csharpier_def Let_def markers_strip)

theorem run_csharpier_nonzero_exit_witness:
  "fst (run_csharpier (example_env True (CompletedProcess 1 ''out'' ''  boom  '')) ''a.cs'' no_io) =
     (False, ''Format failed: boom'') \<and>
   fst (run_csharpier (example_env True (CompletedProcess 1 ''out'' ''CSharpier: command Not Found'')) ''a.cs'' no_io) =
     (False, ''CSharpier not installed'')"
proof -
  have a: "fst (run_csharpier (example_env True (CompletedProcess 1 ''out'' ''  boom  '')) ''a.cs'' no_io) =
     (False, ''Format failed: boom'')"
    using run_csharpier_nonzero_exit
      [of "example_env True (CompletedProcess 1 ''out'' ''  boom  '')" "''a.cs''" 1 "''out''" "''  boom  ''" no_io]
    by (simp add: example_env_def strip_def isspace_def lower_def lower_char_def is_upper_def)
  have m: "contains ''csharpier'' (lower ''CSharpier: command Not Found'')"
    "contains ''not found'' (lower ''CSharpier: command Not Found'')"
    by code_simp+
  have b: "fst (run_csharpier (example_env True (CompletedProcess 1 ''out'' ''CSharpier: command Not Found'')) ''a.cs'' no_io) =
     (False, ''CSharpier not installed'')"
    using run_csharpier_nonzero_exit
      [of "example_env True (CompletedProcess 1 ''out'' ''CSharpier: command Not Found'')" "''a.cs''" 1
          "''out''" "''CSharpier: command Not Found''" no_io] m
    by (simp add: example_env_def)
  from a b show ?thesis by simp
qed

text \<open>
  C3 as stated fails: with error text that is one newline and output text \<^verbatim>\<open>out\<close>, the
  error text is not empty, yet the message carries the output text and not the error text.
\<close>

theorem run_csharpier_blank_stderr_counterexample:
  "fst (run_csharpier (example_env True (CompletedProcess 1 ''out'' [CHR 0x0A])) ''a.cs'' no_io) =
     (False, ''Format failed: out'') \<and>
   captured_text ''out'' [CHR 0x0A] = [CHR 0x0A] \<and>
   \<not> contains (captured_text ''out'' [CHR 0x0A])
        (snd (fst (run_csharpier (example_env True (CompletedProcess 1 ''out'' [CHR 0x0A])) ''a.cs'' no_io)))"
  by (simp add: run_csharpier_def example_env_def captured_text_def strip_def isspace_def
        lower_def lower_char_def is_upper_def Let_def)

text \<open>
  C4. When the input names an existing \<^verbatim>\<open>.cs\<close> file and the probe for the toolchain
  reports it unavailable, no subprocess is launched, the one line printed is a warning on
  the error stream, and the exit status is 0.
\<close>

theorem missing_toolchain_skips_format:
  assumes "extract_file_path data = Inr (JString p)"
    and "endswith p ''.cs''"
    and "path_exists env p = Inr True"
    and "\<not> check_csharpier_installed env"
  shows "hook_subprocesses env (WellFormed data) = [] \<and>
         hook_output env (WellFormed data) =
           [(Stderr, ''[CSharpier] Warning: dotnet CLI not found. Skipping format.'')] \<and>
         hook_exit_status env (WellFormed data) = 0"
  using assms
  by (simp add: hook_subprocesses_def hook_output_def hook_exit_status_def main_def main_try_def
        no_io_def print_to_def)

theorem missing_toolchain_skips_format_witness:
  "hook_subprocesses (example_env False TimeoutExpired) (edit_event ''src/A.cs'') = [] \<and>
   hook_output (example_env False TimeoutExpired) (edit_event ''src/A.cs'') =
     [(Stderr, ''[CSharpier] Warning: dotnet CLI not found. Skipping format.'')] \<and>
   hook_exit_status (example_env False TimeoutExpired) (edit_event ''src/A.cs'') = 0"
proof -
  have 1: "extract_file_path (JObject [(''tool_input'', JObject [(''file_path'', JString ''src/A.cs'')])]) =
             Inr (JString ''src/A.cs'')"
    by (simp add: extract_file_path_def)
  have 2: "endswith ''src/A.cs'' ''.cs''"
    by (simp add: endswith_def)
  have 3: "path_exists (example_env False TimeoutExpired) ''src/A.cs'' = Inr True"
    by (simp add: example_env_def)
  have 4: "\<not> check_csharpier_installed (example_env False TimeoutExpired)"
    by (simp add: check_csharpier_installed_def example_env_def)
  from missing_toolchain_skips_format [OF 1 2 3 4] show ?thesis
    by (simp add: edit_event_def)
qed

text \<open>
  C10 (as amended). A well-formed input that is an object without \<^verbatim>\<open>tool_input\<close>, or
  whose \<^verbatim>\<open>tool_input\<close> is an object without \<^verbatim>\<open>file_path\<close>, gives the empty string as
  file path; the hook prints nothing, launches nothing and exits with status 0. When the
  top-level value, or a \<^verbatim>\<open>tool_input\<close> that is present, is not an object, the hook launches
  nothing and exits with status 0 as well, but it prints one warning on the error stream:
  not the one for malformed input, the attribute error of the failed \<^verbatim>\<open>.get\<close>.
\<close>

theorem absent_file_path_outcomes:
  "(lacks_file_path data \<longrightarrow>
      extract_file_path data = Inr (JString []) \<and>
      hook_output env (WellFormed data) = [] \<and>
      hook_subprocesses env (WellFormed data) = [] \<and>
      hook_exit_status env (WellFormed data) = 0) \<and>
   (non_mapping_receiver data = Some v \<longrightarrow>
      extract_file_path data = Inl (AttributeError (type_name v) ''get'') \<and>
      hook_output env (WellFormed data) =
        [(Stderr, ''[CSharpier] Warning: '' @ quoted (type_name v) @ '' object has no attribute '' @ quoted ''get'')] \<and>
      hook_subprocesses env (WellFormed data) = [] \<and>
      hook_exit_status env (WellFormed data) = 0)"
proof (intro conjI impI)
  assume l: "lacks_file_path data"
  show e: "extract_file_path data = Inr (JString [])"
  proof (cases data)
    case (JObject kvs)
    show ?thesis
    proof (cases "map_of kvs ''tool_input''")
      case None
      with JObject show ?thesis by (simp add: extract_file_path_def)
    next
      case (Some ti)
      with l JObject show ?thesis
        by (cases ti) (simp_all add: lacks_file_path_def extract_file_path_def)
    qed
  qed (use l in \<open>simp_all add: lacks_file_path_def\<close>)
  from e have t: "main_try env (WellFormed data) no_io = (SystemExit 0, no_io)"
    by (simp add: main_try_def endswith_def)
  then show "hook_output env (WellFormed data) = []"
    and "hook_subprocesses env (WellFormed data) = []"
    and "hook_exit_status env (WellFormed data) = 0"
    by (simp_all add: hook_output_def hook_subprocesses_def hook_exit_status_def main_def no_io_def)
next
  assume n: "non_mapping_receiver data = Some v"
  show e: "extract_file_path data = Inl (AttributeError (type_name v) ''get'')"
  proof (cases data)
    case (JObject kvs)
    show ?thesis
    proof (cases "map_of kvs ''tool_input''")
      case None
      with n JObject show ?thesis by (simp add: non_mapping_receiver_def)
    next
      case (Some ti)
      with n JObject show ?thesis
        by (cases ti) (auto simp: non_mapping_receiver_def extract_file_path_def)
    qed
  qed (use n in \<open>auto simp: non_mapping_receiver_def extract_file_path_def\<close>)
  from e have t: "main_try env (WellFormed data) no_io =
                  (Exception (AttributeError (type_name v) ''get''), no_io)"
    by (simp add: main_try_def)
  then show "hook_output env (WellFormed data) =
        [(Stderr, ''[CSharpier] Warning: '' @ quoted (type_name v) @ '' object has no attribute '' @ quoted ''get'')]"
    and "hook_subprocesses env (WellFormed data) = []"
    and "hook_exit_status env (WellFormed data) = 0"
    by (simp_all add: hook_output_def hook_subprocesses_def hook_exit_status_def main_def no_io_def
          print_to_def)
qed

theorem absent_file_path_outcomes_witness:
  "lacks_file_path (JObject [(''tool_input'', JObject [])]) \<and>
   extract_file_path (JObject [(''tool_input'', JObject [])]) = Inr (JString []) \<and>
   hook_output (example_env True TimeoutExpired) (WellFormed (JObject [(''tool_input'', JObject [])])) = [] \<and>
   non_mapping_receiver (JArray []) = Some (JArray []) \<and>
   hook_output (example_env True TimeoutExpired) (WellFormed (JArray [])) =
     [(Stderr, ''[CSharpier] Warning: '' @ quoted ''list'' @ '' object has no attribute '' @ quoted ''get'')]"
proof -
  have 1: "lacks_file_path (JObject [(''tool_input'', JObject [])])"
    by (simp add: lacks_file_path_def)
  have 2: "non_mapping_receiver (JArray []) = Some (JArray [])"
    by (simp add: non_mapping_receiver_def)
  from absent_file_path_outcomes
         [of "JObject [(''tool_input'', JObject [])]" "example_env True TimeoutExpired" "JArray []"]
       absent_file_path_outcomes
         [of "JArray []" "example_env True TimeoutExpired" "JArray []"]
       1 2
  show ?thesis by simp
qed

text \<open>
  C10 as stated fails: \<^verbatim>\<open>{"tool_input": null}\<close> has no \<^verbatim>\<open>tool_input\<close> mapping with the
  key, yet no file path is extracted and the hook prints a warning.
\<close>

theorem null_tool_input_counterexample:
  "no_file_path_entry (JObject [(''tool_input'', JNull)]) \<and>
   extract_file_path (JObject [(''tool_input'', JNull)]) \<noteq> Inr (JString []) \<and>
   hook_output (example_env True TimeoutExpired) (WellFormed (JObject [(''tool_input'', JNull)])) =
     [(Stderr, ''[CSharpier] Warning: '' @ quoted ''NoneType'' @ '' object has no attribute '' @ quoted ''get'')]"
  by (simp add: no_file_path_entry_def non_mapping_receiver_def lacks_file_path_def extract_file_path_def
        hook_output_def main_def main_try_def no_io_def print_to_def)


section \<open>Properties of the scaffolder\<close>

subsection \<open>Steps of the session\<close>

lemma files_say [simp]: "files (say m w) = files w"
  by (simp add: say_def)

lemma files_on_tty [simp]: "files (snd (on_tty f w)) = files w"
  by (simp add: on_tty_def split: prod.splits)

lemma on_tty_files: "on_tty f w = (r, w') \<Longrightarrow> files w' = files w"
  using files_on_tty [of f w] by simp

lemma validate_environment_True: "validate_environment os self w = (True, w0) \<Longrightarrow> w0 = w"
  by (auto simp: validate_environment_def split: if_splits)

lemma validate_environment_files: "validate_environment os self w = (ok, w0) \<Longrightarrow> files w0 = files w"
  by (auto simp: validate_environment_def split: if_splits)

lemma get_user_input_files: "get_user_input os self w = (r, w') \<Longrightarrow> files w' = files w"
  unfolding get_user_input_def Let_def
  by (auto split: prod.splits sum.splits simp: on_tty_def say_def)

lemma name_loop_accepts:
  "name_loop taken t = (Inr n, t') \<Longrightarrow>
     n \<noteq> [] \<and> CHR '' '' \<notin> set n \<and> \<not> taken n \<and> n \<in> strip ` set (fst t)"
proof (induction taken t rule: name_loop.induct)
  case (1 taken out)
  then show ?case by simp
next
  case (2 taken line rest out)
  then show ?case
    by (auto simp: Let_def split: if_splits)
qed

lemma get_user_input_name:
  assumes "get_user_input os self w = (Inr info, w')"
  shows "\<exists>t'. name_loop (\<lambda>n. os_exists os (files w) (joinpath (project_root self) n))
                 (stdin w, console w @ [Banner]) = (Inr (name info), t')"
  using assms unfolding get_user_input_def Let_def on_tty_def say_def
  by (auto split: prod.splits sum.splits)

lemma example_paths:
  "project_root example_creator = [''repo'']"
  "template_dir example_creator = [''repo'', ''tools'', ''plugin-template'']"
  "marketplace_file example_creator = [''repo'', ''.claude-plugin'', ''marketplace.json'']"
  by (simp_all add: example_creator_def PluginCreator_def parent_def joinpath_def)

lemma confirm_loop_yn:
  "confirm_loop t = (Inr c, t') \<Longrightarrow> c = ''y'' \<or> c = ''n''"
proof (induction t rule: confirm_loop.induct)
  case (1 out)
  then show ?case by simp
next
  case (2 line rest out)
  then show ?case by (auto simp: Let_def split: if_splits)
qed

lemma on_tty_confirm_yn:
  "on_tty confirm_loop w = (Inr c, w') \<Longrightarrow> c = ''y'' \<or> c = ''n''"
  by (auto simp: on_tty_def split: prod.splits dest: confirm_loop_yn)

lemma run_invalid:
  "\<not> fst (validate_environment os self w) \<Longrightarrow>
     run os self w = (Inr 1, snd (validate_environment os self w))"
  by (cases "validate_environment os self w") (simp add: run_def)

lemma run_no_input:
  assumes "fst (validate_environment os self w)"
    and "get_user_input os self w = (Inl e, w1)"
  shows "run os self w = (Inl e, w1)"
proof -
  from assms(1) have "validate_environment os self w = (True, w)"
    by (cases "validate_environment os self w") (auto dest: validate_environment_True)
  with assms(2) show ?thesis by (simp add: run_def)
qed

lemma run_no_answer:
  assumes "fst (validate_environment os self w)"
    and "get_user_input os self w = (Inr info, w1)"
    and "on_tty confirm_loop (say (Summary info) w1) = (Inl e, w2)"
  shows "run os self w = (Inl e, w2)"
proof -
  from assms(1) have "validate_environment os self w = (True, w)"
    by (cases "validate_environment os self w") (auto dest: validate_environment_True)
  with assms(2,3) show ?thesis by (simp add: run_def)
qed

lemma run_cancelled:
  assumes "fst (validate_environment os self w)"
    and "get_user_input os self w = (Inr info, w1)"
    and "on_tty confirm_loop (say (Summary info) w1) = (Inr ''n'', w2)"
  shows "run os self w = (Inr 0, say Cancelled w2)"
proof -
  from assms(1) have "validate_environment os self w = (True, w)"
    by (cases "validate_environment os self w") (auto dest: validate_environment_True)
  with assms(2,3) show ?thesis by (simp add: run_def)
qed

lemma run_confirmed:
  assumes "fst (validate_environment os self w)"
    and "get_user_input os self w = (Inr info, w1)"
    and "on_tty confirm_loop (say (Summary info) w1) = (Inr ''y'', w2)"
  shows "run os self w =
           (case create_plugin_directory os self info w2 of
              (None, w3) \<Rightarrow> (Inr 1, w3)
            | (Some target_dir, w3) \<Rightarrow>
                (case update_plugin_json os target_dir info w3 of
                   (False, w4) \<Rightarrow> (Inr 1, say UpdateFailedButCreated w4)
                 | (True, w4) \<Rightarrow>
                     (case register_to_marketplace os self info w4 of
                        (Inl e, w5) \<Rightarrow> (Inl e, w5)
                      | (Inr registered, w5) \<Rightarrow> (Inr 0, print_success_message info w5))))"
proof -
  from assms(1) have "validate_environment os self w = (True, w)"
    by (cases "validate_environment os self w") (auto dest: validate_environment_True)
  with assms(2,3) show ?thesis by (simp add: run_def)
qed

lemma names_of_total:
  assumes "\<forall>p \<in> set ps. \<exists>n. py_getitem p ''name'' = Inr n"
  shows "\<exists>ns. names_of ps = Inr ns \<and> (\<forall>p \<in> set ps. \<forall>n. py_getitem p ''name'' = Inr n \<longrightarrow> n \<in> set ns)"
  using assms
proof (induction ps)
  case Nil
  then show ?case by simp
next
  case (Cons p ps)
  then obtain n where n: "py_getitem p ''name'' = Inr n" by auto
  from Cons obtain ns where ns: "names_of ps = Inr ns"
    "\<forall>p \<in> set ps. \<forall>n. py_getitem p ''name'' = Inr n \<longrightarrow> n \<in> set ns"
    by auto
  from n ns show ?case by auto
qed

lemma register_choice_loop_yn:
  "register_choice_loop t = (Inr c, t') \<Longrightarrow> c = ''y'' \<or> c = ''n''"
proof (induction t rule: register_choice_loop.induct)
  case (1 out)
  then show ?case by simp
next
  case (2 line rest out)
  then show ?case by (auto simp: Let_def split: if_splits)
qed

lemma template_not_above_target:
  "\<not> prefix (joinpath dir ''plugin-template'') (joinpath (parent dir) ''my-plugin'')"
proof (cases "dir = []")
  case True
  then show ?thesis by (simp add: joinpath_def parent_def)
next
  case False
  then have "length (joinpath (parent dir) ''my-plugin'') < length (joinpath dir ''plugin-template'')"
    by (simp add: joinpath_def parent_def)
  then show ?thesis
    by (auto dest: prefix_length_le)
qed

lemma my_plugin_input:
  assumes "fs (joinpath (project_root self) ''my-plugin'') = None"
  shows "get_user_input tree_os self \<lparr>files = fs, stdin = my_plugin_session, console = out\<rparr> =
           (Inr my_plugin_info,
            \<lparr>files = fs, stdin = [''y'', ''y''],
             console = out @ [Banner, Prompt AskName, Prompt AskDescription, Prompt AskAuthor,
                              Prompt AskVersion]\<rparr>)"
  using assms
  by (simp add: get_user_input_def on_tty_def say_def tree_os_def my_plugin_session_def
        my_plugin_info_def strip_def isspace_def Let_def)

lemma yes_confirm:
  "on_tty confirm_loop \<lparr>files = fs, stdin = ''y'' # rest, console = out\<rparr> =
     (Inr ''y'', \<lparr>files = fs, stdin = rest, console = out @ [Prompt AskProceed]\<rparr>)"
  by (simp add: on_tty_def strip_def isspace_def lower_def lower_char_def is_upper_def Let_def)

lemma yes_register:
  "on_tty register_choice_loop \<lparr>files = fs, stdin = ''y'' # rest, console = out\<rparr> =
     (Inr ''y'', \<lparr>files = fs, stdin = rest, console = out @ [Prompt AskRegister]\<rparr>)"
  by (simp add: on_tty_def strip_def isspace_def lower_def lower_char_def is_upper_def Let_def)

lemma my_plugin_manifest:
  assumes "map_of manifest ''author'' = Some (JObject author_data)"
  shows "updated_manifest (JObject manifest) my_plugin_info =
           Inr (JObject
                 (AList.update ''author'' (JObject (AList.update ''name'' (JString ''Alice'') author_data))
                   (AList.update ''version'' (JString ''1.0.0'')
                     (AList.update ''description'' (JString ''Test plugin'')
                       (AList.update ''name'' (JString ''my-plugin'') manifest)))))"
  using assms
  by (simp add: updated_manifest_def my_plugin_info_def update_conv')

lemma creator_paths:
  "project_root (PluginCreator dir) = parent dir"
  "template_dir (PluginCreator dir) = dir @ [''plugin-template'']"
  "marketplace_file (PluginCreator dir) = parent dir @ [''.claude-plugin'', ''marketplace.json'']"
  by (simp_all add: PluginCreator_def joinpath_def)

lemma parent_snoc: "parent (p @ [s]) = p"
  by (simp add: parent_def)

lemma names_of_fresh:
  assumes "\<forall>p \<in> set ps. \<exists>n. py_getitem p ''name'' = Inr n \<and> n \<noteq> x"
  shows "\<exists>ns. names_of ps = Inr ns \<and> x \<notin> set ns"
  using assms
proof (induction ps)
  case Nil
  then show ?case by simp
next
  case (Cons p ps)
  then obtain n where n: "py_getitem p ''name'' = Inr n" "n \<noteq> x" by auto
  from Cons obtain ns where ns: "names_of ps = Inr ns" "x \<notin> set ns" by auto
  from n ns show ?case by auto
qed

lemma create_step:
  assumes "fs (dir @ [''plugin-template'']) = Some Dir"
    and "fs (parent dir) = Some Dir"
    and "fs (parent dir @ [''my-plugin'']) = None"
  shows "create_plugin_directory tree_os (PluginCreator dir) my_plugin_info
           \<lparr>files = fs, stdin = ins, console = out\<rparr> =
         (Some (parent dir @ [''my-plugin'']),
          \<lparr>files = copied_tree (dir @ [''plugin-template'']) (parent dir @ [''my-plugin'']) fs,
           stdin = ins,
           console = out @ [CreatingDirectory ''my-plugin'', DirectoryCreated]\<rparr>)"
  using assms template_not_above_target [of dir]
  by (simp add: create_plugin_directory_def creator_paths my_plugin_info_def joinpath_def say_def
        tree_os_def tree_copytree_def parent_snoc Let_def)

lemma update_step:
  assumes "fs1 (target @ [''.claude-plugin'', ''plugin.json'']) = Some (File (JsonText (JObject manifest)))"
    and "updated_manifest (JObject manifest) info = Inr manifest'"
  shows "update_plugin_json tree_os target info \<lparr>files = fs1, stdin = ins, console = out\<rparr> =
         (True,
          \<lparr>files = fs1(target @ [''.claude-plugin'', ''plugin.json''] \<mapsto> File (JsonText manifest')),
           stdin = ins,
           console = out @ [UpdatingPluginJson, PluginJsonUpdated]\<rparr>)"
  using assms
  by (simp add: update_plugin_json_def joinpath_def say_def tree_os_def tree_load_json_def
        tree_dump_json_def Let_def)

lemma register_step:
  assumes "fs2 (marketplace_file self) = Some (File (JsonText (JObject registry)))"
    and "map_of registry ''plugins'' = Some (JArray plugins)"
    and "names_of plugins = Inr ns"
    and "JString (name info) \<notin> set ns"
  shows "register_to_marketplace tree_os self info \<lparr>files = fs2, stdin = ''y'' # ins, console = out\<rparr> =
         (Inr True,
          \<lparr>files = fs2(marketplace_file self \<mapsto>
                     File (JsonText (JObject (AList.update ''plugins''
                                               (JArray (plugins @ [new_plugin_entry info])) registry)))),
           stdin = ins,
           console = out @ [RegistrationHeader, Prompt AskRegister, Registered]\<rparr>)"
  using assms
  by (simp add: register_to_marketplace_def say_def yes_register tree_os_def tree_load_json_def
        tree_dump_json_def existing_plugins_def with_new_entry_def)

lemma my_plugin_run_result:
  assumes tpl: "fs (dir @ [''plugin-template'']) = Some Dir"
    and root: "fs (parent dir) = Some Dir"
    and reg: "fs (parent dir @ [''.claude-plugin'', ''marketplace.json'']) = Some (File (JsonText (JObject registry)))"
    and plugins: "map_of registry ''plugins'' = Some (JArray plugins)"
    and names: "names_of plugins = Inr ns" "JString ''my-plugin'' \<notin> set ns"
    and man: "fs (dir @ [''plugin-template'', ''.claude-plugin'', ''plugin.json'']) =
                Some (File (JsonText (JObject manifest)))"
    and upd: "updated_manifest (JObject manifest) my_plugin_info = Inr manifest'"
    and free: "fs (parent dir @ [''my-plugin'']) = None"
  shows "fst (my_plugin_run dir fs) = Inr 0 \<and>
         stdin (snd (my_plugin_run dir fs)) = [] \<and>
         files (snd (my_plugin_run dir fs)) =
           (copied_tree (dir @ [''plugin-template'']) (parent dir @ [''my-plugin'']) fs)
             (parent dir @ [''my-plugin'', ''.claude-plugin'', ''plugin.json''] \<mapsto> File (JsonText manifest'),
              parent dir @ [''.claude-plugin'', ''marketplace.json''] \<mapsto>
                File (JsonText (JObject (AList.update ''plugins''
                   (JArray (plugins @ [new_plugin_entry my_plugin_info])) registry))))"
proof -
  let ?self = "PluginCreator dir"
  let ?T = "dir @ [''plugin-template'']"
  let ?D = "parent dir @ [''my-plugin'']"
  let ?w = "example_world fs my_plugin_session"
  let ?fs1 = "copied_tree ?T ?D fs"
  let ?fs2 = "?fs1(?D @ [''.claude-plugin'', ''plugin.json''] \<mapsto> File (JsonText manifest'))"
  let ?fs3 = "?fs2(marketplace_file ?self \<mapsto>
                File (JsonText (JObject (AList.update ''plugins''
                   (JArray (plugins @ [new_plugin_entry my_plugin_info])) registry))))"
  have v: "fst (validate_environment tree_os ?self ?w)"
    using tpl reg by (simp add: validate_environment_def creator_paths tree_os_def example_world_def)
  obtain o1 where g: "get_user_input tree_os ?self ?w =
      (Inr my_plugin_info, \<lparr>files = fs, stdin = [''y'', ''y''], console = o1\<rparr>)"
    using my_plugin_input [of fs ?self "[]"] free
    by (simp add: example_world_def creator_paths joinpath_def)
  obtain o2 where c: "on_tty confirm_loop
        (say (Summary my_plugin_info) \<lparr>files = fs, stdin = [''y'', ''y''], console = o1\<rparr>) =
      (Inr ''y'', \<lparr>files = fs, stdin = [''y''], console = o2\<rparr>)"
    by (simp add: say_def yes_confirm)
  obtain o3 where cr: "create_plugin_directory tree_os ?self my_plugin_info
        \<lparr>files = fs, stdin = [''y''], console = o2\<rparr> =
      (Some ?D, \<lparr>files = ?fs1, stdin = [''y''], console = o3\<rparr>)"
    by (simp add: create_step [OF tpl root free])
  have m1: "?fs1 (?D @ [''.claude-plugin'', ''plugin.json'']) = Some (File (JsonText (JObject manifest)))"
    using man by (simp add: copied_tree_def)
  obtain o4 where up: "update_plugin_json tree_os ?D my_plugin_info
        \<lparr>files = ?fs1, stdin = [''y''], console = o3\<rparr> =
      (True, \<lparr>files = ?fs2, stdin = [''y''], console = o4\<rparr>)"
    using update_step [of ?fs1 ?D manifest my_plugin_info manifest', OF m1 upd] by blast
  have r2: "?fs2 (marketplace_file ?self) = Some (File (JsonText (JObject registry)))"
    using reg by (simp add: creator_paths copied_tree_def)
  have n: "JString (name my_plugin_info) \<notin> set ns"
    using names(2) by (simp add: my_plugin_info_def)
  obtain o5 where rg: "register_to_marketplace tree_os ?self my_plugin_info
        \<lparr>files = ?fs2, stdin = [''y''], console = o4\<rparr> =
      (Inr True, \<lparr>files = ?fs3, stdin = [], console = o5\<rparr>)"
    using register_step [of ?fs2 ?self registry plugins ns my_plugin_info, OF r2 plugins names(1) n]
    by blast
  have "my_plugin_run dir fs =
          (Inr 0, print_success_message my_plugin_info \<lparr>files = ?fs3, stdin = [], console = o5\<rparr>)"
    by (simp only: my_plugin_run_def run_confirmed [OF v g c] cr up rg
          prod.case option.case sum.case bool.case)
  then show ?thesis
    by (simp add: print_success_message_def say_def creator_paths)
qed

lemma example_tree_simps:
  "example_tree [''repo''] = Some Dir"
  "example_tree [''repo'', ''tools'', ''plugin-template''] = Some Dir"
  "example_tree [''repo'', ''.claude-plugin'', ''marketplace.json''] = Some (File (JsonText example_registry))"
  "example_tree [''repo'', ''tools'', ''plugin-template'', ''.claude-plugin'', ''plugin.json''] =
     Some (File (JsonText example_manifest))"
  "example_tree [''repo'', ''tools'', ''plugin-template'', ''README.md''] = Some (File (OtherText ''# Template''))"
  "example_tree [''repo'', ''csharp-plugin''] = Some Dir"
  "example_tree [''repo'', ''my-plugin''] = None"
  "example_tree [''repo'', ''new-plugin''] = None"
  "example_tree [''repo'', ''my plugin''] = None"
  "example_tree [''repo'', tab_name] = None"
  by (simp_all add: example_tree_def tab_name_def)

lemma strip_examples:
  "strip ''csharp-plugin'' = ''csharp-plugin''"
  "strip ''my plugin'' = ''my plugin''"
  "strip ''   '' = []"
  "strip '' new-plugin '' = ''new-plugin''"
  "strip ''new-plugin'' = ''new-plugin''"
  "strip ''Demo'' = ''Demo''"
  "strip ''Bob'' = ''Bob''"
  "strip ''2.0'' = ''2.0''"
  "strip ''d'' = ''d''"
  "strip ''a'' = ''a''"
  "strip [] = []"
  "strip tab_name = tab_name"
  "lower (strip ''maybe'') = ''maybe''"
  "lower (strip '' n '') = ''n''"
  "lower (strip '' y '') = ''y''"
  by (simp_all add: strip_def isspace_def tab_name_def lower_def lower_char_def is_upper_def)

lemma retry_input:
  "get_user_input tree_os example_creator (example_world example_tree retry_session) =
     (Inr new_plugin_info,
      \<lparr>files = example_tree, stdin = [],
       console = [Banner, Prompt AskName, DirectoryExists ''csharp-plugin'', Prompt AskName,
                  NameHasSpaces, Prompt AskName, NameEmpty, Prompt AskName, Prompt AskDescription,
                  Prompt AskAuthor, Prompt AskVersion]\<rparr>)"
  by (simp add: get_user_input_def on_tty_def say_def example_world_def example_paths tree_os_def
        joinpath_def example_tree_simps retry_session_def new_plugin_info_def strip_examples Let_def)

lemma declined_input:
  "get_user_input tree_os example_creator (example_world example_tree declined_session) =
     (Inr new_plugin_info,
      \<lparr>files = example_tree, stdin = [''maybe'', '' n ''],
       console = [Banner, Prompt AskName, Prompt AskDescription, Prompt AskAuthor, Prompt AskVersion]\<rparr>)"
  by (simp add: get_user_input_def on_tty_def say_def example_world_def example_paths tree_os_def
        joinpath_def example_tree_simps declined_session_def new_plugin_info_def strip_examples Let_def)

lemma example_valid:
  "fst (validate_environment tree_os example_creator (example_world example_tree lines))"
  by (simp add: validate_environment_def example_paths tree_os_def example_world_def example_tree_simps)

lemma bare_tree_simps:
  "bare_tree [''repo''] = Some Dir"
  "bare_tree [''repo'', ''tools'', ''plugin-template''] = Some Dir"
  "bare_tree [''repo'', ''.claude-plugin'', ''marketplace.json''] = Some (File (JsonText example_registry))"
  "bare_tree [''repo'', ''tools'', ''plugin-template'', ''.claude-plugin'', ''plugin.json''] = None"
  "bare_tree [''repo'', ''my-plugin''] = None"
  by (simp_all add: bare_tree_def)

lemma bare_input:
  "get_user_input tree_os example_creator (example_world bare_tree my_plugin_session) =
     (Inr my_plugin_info,
      \<lparr>files = bare_tree, stdin = [''y'', ''y''],
       console = [Banner, Prompt AskName, Prompt AskDescription, Prompt AskAuthor, Prompt AskVersion]\<rparr>)"
  using my_plugin_input [of bare_tree example_creator "[]"]
  by (simp add: example_world_def example_paths joinpath_def bare_tree_simps)

lemma bare_confirm:
  "on_tty confirm_loop (say (Summary my_plugin_info)
      \<lparr>files = bare_tree, stdin = [''y'', ''y''],
       console = [Banner, Prompt AskName, Prompt AskDescription, Prompt AskAuthor, Prompt AskVersion]\<rparr>) =
   (Inr ''y'',
    \<lparr>files = bare_tree, stdin = [''y''],
     console = [Banner, Prompt AskName, Prompt AskDescription, Prompt AskAuthor, Prompt AskVersion,
                Summary my_plugin_info, Prompt AskProceed]\<rparr>)"
  by (simp add: say_def yes_confirm)

lemma bare_create:
  "create_plugin_directory tree_os example_creator my_plugin_info
      \<lparr>files = bare_tree, stdin = [''y''],
       console = [Banner, Prompt AskName, Prompt AskDescription, Prompt AskAuthor, Prompt AskVersion,
                  Summary my_plugin_info, Prompt AskProceed]\<rparr> =
   (Some [''repo'', ''my-plugin''],
    \<lparr>files = copied_tree [''repo'', ''tools'', ''plugin-template''] [''repo'', ''my-plugin''] bare_tree,
     stdin = [''y''],
     console = [Banner, Prompt AskName, Prompt AskDescription, Prompt AskAuthor, Prompt AskVersion,
                Summary my_plugin_info, Prompt AskProceed, CreatingDirectory ''my-plugin'',
                DirectoryCreated]\<rparr>)"
  using create_step [of bare_tree "[''repo'', ''tools'']"]
  by (simp add: example_creator_def parent_def bare_tree_simps)

lemma bare_update:
  "fst (update_plugin_json tree_os [''repo'', ''my-plugin''] my_plugin_info
      \<lparr>files = copied_tree [''repo'', ''tools'', ''plugin-template''] [''repo'', ''my-plugin''] bare_tree,
       stdin = [''y''],
       console = [Banner, Prompt AskName, Prompt AskDescription, Prompt AskAuthor, Prompt AskVersion,
                  Summary my_plugin_info, Prompt AskProceed, CreatingDirectory ''my-plugin'',
                  DirectoryCreated]\<rparr>) = False"
  by (simp add: update_plugin_json_def joinpath_def say_def tree_os_def tree_load_json_def
        copied_tree_def bare_tree_simps Let_def)


subsection \<open>The claims on the scaffolder\<close>

text \<open>
  C5 (as amended). The name that \<open>get_user_input\<close> returns is one of the entered lines with
  its surrounding whitespace stripped; it is not empty, it contains no space character, and
  nothing exists under that name at the project root. A line whose stripped text breaks one
  of the three conditions is answered with a message, and the loop goes on with the next
  prompt and the rest of the input.
\<close>

theorem returned_name_conditions:
  "(get_user_input os self w = (Inr info, w') \<longrightarrow>
      name info \<noteq> [] \<and>
      CHR '' '' \<notin> set (name info) \<and>
      \<not> os_exists os (files w) (joinpath (project_root self) (name info)) \<and>
      name info \<in> strip ` set (stdin w)) \<and>
   (strip line = [] \<or> CHR '' '' \<in> set (strip line) \<or> taken (strip line) \<longrightarrow>
      (\<exists>m. name_loop taken (line # rest, out) = name_loop taken (rest, out @ [Prompt AskName, m])))"
proof (intro conjI impI)
  assume g: "get_user_input os self w = (Inr info, w')"
  from get_user_input_name [OF g] obtain t' where
    "name_loop (\<lambda>n. os_exists os (files w) (joinpath (project_root self) n))
       (stdin w, console w @ [Banner]) = (Inr (name info), t')" ..
  from name_loop_accepts [OF this]
  show "name info \<noteq> []" and "CHR '' '' \<notin> set (name info)"
    and "\<not> os_exists os (files w) (joinpath (project_root self) (name info))"
    and "name info \<in> strip ` set (stdin w)"
    by simp_all
next
  assume "strip line = [] \<or> CHR '' '' \<in> set (strip line) \<or> taken (strip line)"
  then show "\<exists>m. name_loop taken (line # rest, out) = name_loop taken (rest, out @ [Prompt AskName, m])"
    by (auto simp: Let_def)
qed

theorem returned_name_conditions_witness:
  "get_user_input tree_os example_creator (example_world example_tree retry_session) =
     (Inr new_plugin_info,
      \<lparr>files = example_tree, stdin = [],
       console = [Banner, Prompt AskName, DirectoryExists ''csharp-plugin'', Prompt AskName,
                  NameHasSpaces, Prompt AskName, NameEmpty, Prompt AskName, Prompt AskDescription,
                  Prompt AskAuthor, Prompt AskVersion]\<rparr>) \<and>
   name new_plugin_info \<noteq> [] \<and>
   CHR '' '' \<notin> set (name new_plugin_info) \<and>
   \<not> os_exists tree_os example_tree (joinpath (project_root example_creator) (name new_plugin_info)) \<and>
   name new_plugin_info \<in> strip ` set retry_session \<and>
   CHR '' '' \<in> set (strip ''my plugin'') \<and>
   (\<exists>m. name_loop (\<lambda>n. False) ([''my plugin'', ''ok''], []) =
          name_loop (\<lambda>n. False) ([''ok''], [] @ [Prompt AskName, m]))"
proof -
  have s: "CHR '' '' \<in> set (strip ''my plugin'')"
    by (simp add: strip_examples)
  from returned_name_conditions
         [of tree_os example_creator "example_world example_tree retry_session" new_plugin_info
             "\<lparr>files = example_tree, stdin = [],
               console = [Banner, Prompt AskName, DirectoryExists ''csharp-plugin'', Prompt AskName,
                          NameHasSpaces, Prompt AskName, NameEmpty, Prompt AskName, Prompt AskDescription,
                          Prompt AskAuthor, Prompt AskVersion]\<rparr>"
             "''my plugin''" "\<lambda>n. False" "[''ok'']" "[]"]
       retry_input s
  show ?thesis by (simp add: example_world_def)
qed

text \<open>
  C5 as stated fails: the check is for the space character alone, so a name with a tab in
  it is returned although it contains whitespace.
\<close>

theorem tab_in_name_counterexample:
  "fst (get_user_input tree_os example_creator (example_world example_tree [tab_name, ''d'', ''a'', []])) =
     Inr \<lparr>name = tab_name, description = ''d'', author = ''a'', version = ''1.0.0''\<rparr> \<and>
   \<not> no_whitespace tab_name"
  by (simp add: get_user_input_def on_tty_def say_def example_world_def example_paths tree_os_def
        joinpath_def example_tree_simps strip_examples Let_def no_whitespace_def)
    (simp add: tab_name_def isspace_def)

text \<open>
  C6. Let the answer at the registration prompt be yes, and let the registry hold a
  \<^verbatim>\<open>plugins\<close> list whose records all carry a name, one of them the name of the plugin.
  Then \<open>register_to_marketplace\<close> returns \<^verbatim>\<open>True\<close>, the last thing it prints is the
  warning that the plugin exists already, and the file system is the one it started from:
  the registry file is not rewritten, and read again it gives the same registry, with the
  same plugin list.
\<close>

theorem registered_name_left_unchanged:
  assumes "fst (on_tty register_choice_loop (say RegistrationHeader w)) = Inr ''y''"
    and "os_load_json os (files w) (marketplace_file self) = Inr (JObject registry)"
    and "map_of registry ''plugins'' = Some (JArray plugins)"
    and "\<forall>p \<in> set plugins. \<exists>n. py_getitem p ''name'' = Inr n"
    and "\<exists>p \<in> set plugins. py_getitem p ''name'' = Inr (JString (name info))"
  shows "fst (register_to_marketplace os self info w) = Inr True \<and>
         files (snd (register_to_marketplace os self info w)) = files w \<and>
         os_load_json os (files (snd (register_to_marketplace os self info w))) (marketplace_file self) =
           Inr (JObject registry) \<and>
         console (snd (register_to_marketplace os self info w)) =
           console (snd (on_tty register_choice_loop (say RegistrationHeader w))) @
           [AlreadyInMarketplace (name info)]"
proof -
  obtain w1 where c: "on_tty register_choice_loop (say RegistrationHeader w) = (Inr ''y'', w1)"
    using assms(1) by (cases "on_tty register_choice_loop (say RegistrationHeader w)") simp
  have f: "files w1 = files w"
    using on_tty_files [OF c] by simp
  from names_of_total [OF assms(4)] obtain ns where ns: "names_of plugins = Inr ns"
    "\<forall>p \<in> set plugins. \<forall>n. py_getitem p ''name'' = Inr n \<longrightarrow> n \<in> set ns"
    by blast
  with assms(5) have m: "JString (name info) \<in> set ns" by blast
  have e: "existing_plugins (JObject registry) = Inr ns"
    using assms(3) ns(1) by (simp add: existing_plugins_def)
  have "register_to_marketplace os self info w =
          (Inr True, say (AlreadyInMarketplace (name info)) w1)"
    using c f assms(2) e m by (simp add: register_to_marketplace_def)
  with c f assms(2) show ?thesis by (simp add: say_def)
qed

theorem registered_name_left_unchanged_witness:
  "fst (register_to_marketplace tree_os example_creator listed_plugin_info
          (example_world example_tree [''maybe'', '' y ''])) = Inr True \<and>
   files (snd (register_to_marketplace tree_os example_creator listed_plugin_info
          (example_world example_tree [''maybe'', '' y '']))) = example_tree"
proof -
  let ?w = "example_world example_tree [''maybe'', '' y '']"
  have 1: "fst (on_tty register_choice_loop (say RegistrationHeader ?w)) = Inr ''y''"
    by (simp add: on_tty_def say_def example_world_def strip_examples Let_def)
  have 2: "os_load_json tree_os (files ?w) (marketplace_file example_creator) =
             Inr (JObject [(''name'', JString ''plugins''), (''plugins'', JArray [example_entry])])"
    by (simp add: tree_os_def tree_load_json_def example_world_def example_paths example_tree_simps
          example_registry_def)
  have 3: "map_of [(''name'', JString ''plugins''), (''plugins'', JArray [example_entry])] ''plugins'' =
             Some (JArray [example_entry])"
    by simp
  have 4: "\<forall>p \<in> set [example_entry]. \<exists>n. py_getitem p ''name'' = Inr n"
    by (simp add: example_entry_def)
  have 5: "\<exists>p \<in> set [example_entry]. py_getitem p ''name'' = Inr (JString (name listed_plugin_info))"
    by (simp add: example_entry_def listed_plugin_info_def)
  from registered_name_left_unchanged [OF 1 2 3 4 5]
  show ?thesis by (simp add: example_world_def)
qed

text \<open>
  C7. In a repository with the template directory, a manifest in it that has an
  \<^verbatim>\<open>author\<close> object, a registry with a \<^verbatim>\<open>plugins\<close> list that does not name
  \<^verbatim>\<open>my-plugin\<close>, and nothing called \<^verbatim>\<open>my-plugin\<close> at the project root, the session that
  enters \<^verbatim>\<open>my-plugin\<close>, \<^verbatim>\<open>Test plugin\<close>, \<^verbatim>\<open>Alice\<close>, a blank version, and \<^verbatim>\<open>y\<close> twice
  returns 0. Afterwards \<^verbatim>\<open>my-plugin\<close> is a directory that holds what the template holds,
  except for the manifest, whose \<^verbatim>\<open>name\<close>, \<^verbatim>\<open>description\<close>, \<^verbatim>\<open>version\<close> and
  \<^verbatim>\<open>author.name\<close> are \<^verbatim>\<open>my-plugin\<close>, \<^verbatim>\<open>Test plugin\<close>, \<^verbatim>\<open>1.0.0\<close> and \<^verbatim>\<open>Alice\<close>; and
  the registry's plugin list has the record with \<^verbatim>\<open>name\<close>, \<^verbatim>\<open>source\<close> and
  \<^verbatim>\<open>description\<close> appended.
\<close>

theorem my_plugin_scaffold:
  assumes "fs (template_dir (PluginCreator dir)) = Some Dir"
    and "fs (project_root (PluginCreator dir)) = Some Dir"
    and "fs (joinpath (project_root (PluginCreator dir)) ''my-plugin'') = None"
    and "fs (template_dir (PluginCreator dir) @ [''.claude-plugin'', ''plugin.json'']) =
           Some (File (JsonText (JObject manifest)))"
    and "map_of manifest ''author'' = Some (JObject author_data)"
    and "fs (marketplace_file (PluginCreator dir)) = Some (File (JsonText (JObject registry)))"
    and "map_of registry ''plugins'' = Some (JArray plugins)"
    and "\<forall>p \<in> set plugins. \<exists>n. py_getitem p ''name'' = Inr n \<and> n \<noteq> JString ''my-plugin''"
  shows "fst (my_plugin_run dir fs) = Inr 0 \<and>
         files (snd (my_plugin_run dir fs)) (joinpath (project_root (PluginCreator dir)) ''my-plugin'') =
           Some Dir \<and>
         (\<forall>rel. rel \<noteq> [''.claude-plugin'', ''plugin.json''] \<longrightarrow>
            files (snd (my_plugin_run dir fs))
              (joinpath (project_root (PluginCreator dir)) ''my-plugin'' @ rel) =
            fs (template_dir (PluginCreator dir) @ rel)) \<and>
         (\<exists>manifest' author'.
            files (snd (my_plugin_run dir fs))
              (joinpath (project_root (PluginCreator dir)) ''my-plugin'' @ [''.claude-plugin'', ''plugin.json'']) =
              Some (File (JsonText (JObject manifest'))) \<and>
            map_of manifest' ''name'' = Some (JString ''my-plugin'') \<and>
            map_of manifest' ''description'' = Some (JString ''Test plugin'') \<and>
            map_of manifest' ''version'' = Some (JString ''1.0.0'') \<and>
            map_of manifest' ''author'' = Some (JObject author') \<and>
            map_of author' ''name'' = Some (JString ''Alice'')) \<and>
         files (snd (my_plugin_run dir fs)) (marketplace_file (PluginCreator dir)) =
           Some (File (JsonText (JObject
             (AList.update ''plugins''
               (JArray (plugins @
                  [JObject [(''name'', JString ''my-plugin''),
                            (''source'', JString ''./my-plugin''),
                            (''description'', JString ''Test plugin'')]]))
               registry))))"
proof -
  let ?T = "dir @ [''plugin-template'']"
  let ?D = "parent dir @ [''my-plugin'']"
  let ?a = "AList.update ''name'' (JString ''Alice'') author_data"
  let ?m = "AList.update ''author'' (JObject ?a)
              (AList.update ''version'' (JString ''1.0.0'')
                (AList.update ''description'' (JString ''Test plugin'')
                  (AList.update ''name'' (JString ''my-plugin'') manifest)))"
  from names_of_fresh [OF assms(8)] obtain ns where
    ns: "names_of plugins = Inr ns" "JString ''my-plugin'' \<notin> set ns" by blast
  have r: "fst (my_plugin_run dir fs) = Inr 0"
    "files (snd (my_plugin_run dir fs)) =
       (copied_tree ?T ?D fs)
         (parent dir @ [''my-plugin'', ''.claude-plugin'', ''plugin.json''] \<mapsto> File (JsonText (JObject ?m)),
          parent dir @ [''.claude-plugin'', ''marketplace.json''] \<mapsto>
            File (JsonText (JObject (AList.update ''plugins''
               (JArray (plugins @ [new_plugin_entry my_plugin_info])) registry))))"
    using my_plugin_run_result [of fs dir registry plugins ns manifest "JObject ?m"]
      assms(1-4,6,7) ns my_plugin_manifest [OF assms(5)]
    by (simp_all add: creator_paths joinpath_def)
  have 1: "files (snd (my_plugin_run dir fs)) (joinpath (project_root (PluginCreator dir)) ''my-plugin'') = Some Dir"
    using assms(1) by (simp add: r(2) creator_paths joinpath_def copied_tree_def)
  have 2: "files (snd (my_plugin_run dir fs))
              (joinpath (project_root (PluginCreator dir)) ''my-plugin'' @ rel) =
            fs (template_dir (PluginCreator dir) @ rel)"
    if "rel \<noteq> [''.claude-plugin'', ''plugin.json'']" for rel
    using that by (simp add: r(2) creator_paths joinpath_def copied_tree_def)
  have 3: "files (snd (my_plugin_run dir fs))
              (joinpath (project_root (PluginCreator dir)) ''my-plugin'' @ [''.claude-plugin'', ''plugin.json'']) =
              Some (File (JsonText (JObject ?m)))"
    by (simp add: r(2) creator_paths joinpath_def)
  have 4: "map_of ?m ''name'' = Some (JString ''my-plugin'')"
    "map_of ?m ''description'' = Some (JString ''Test plugin'')"
    "map_of ?m ''version'' = Some (JString ''1.0.0'')"
    "map_of ?m ''author'' = Some (JObject ?a)"
    "map_of ?a ''name'' = Some (JString ''Alice'')"
    by (simp_all add: update_conv')
  have 5: "files (snd (my_plugin_run dir fs)) (marketplace_file (PluginCreator dir)) =
           Some (File (JsonText (JObject
             (AList.update ''plugins''
               (JArray (plugins @
                  [JObject [(''name'', JString ''my-plugin''),
                            (''source'', JString ''./my-plugin''),
                            (''description'', JString ''Test plugin'')]]))
               registry))))"
    by (simp add: r(2) creator_paths new_plugin_entry_def my_plugin_info_def)
  from r(1) 1 2 3 4 5 show ?thesis by blast
qed

theorem my_plugin_scaffold_witness:
  "fst (my_plugin_run [''repo'', ''tools''] example_tree) = Inr 0 \<and>
   files (snd (my_plugin_run [''repo'', ''tools''] example_tree)) [''repo'', ''my-plugin''] = Some Dir \<and>
   files (snd (my_plugin_run [''repo'', ''tools''] example_tree)) [''repo'', ''my-plugin'', ''README.md''] =
     Some (File (OtherText ''# Template'')) \<and>
   files (snd (my_plugin_run [''repo'', ''tools''] example_tree))
     [''repo'', ''.claude-plugin'', ''marketplace.json''] =
     Some (File (JsonText (JObject
       [(''name'', JString ''plugins''),
        (''plugins'',
         JArray [example_entry,
                 JObject [(''name'', JString ''my-plugin''),
                          (''source'', JString ''./my-plugin''),
                          (''description'', JString ''Test plugin'')]])])))"
proof -
  let ?dir = "[''repo'', ''tools'']"
  have p: "project_root (PluginCreator ?dir) = [''repo'']"
    "template_dir (PluginCreator ?dir) = [''repo'', ''tools'', ''plugin-template'']"
    "marketplace_file (PluginCreator ?dir) = [''repo'', ''.claude-plugin'', ''marketplace.json'']"
    using example_paths by (simp_all add: example_creator_def)
  have 1: "example_tree (template_dir (PluginCreator ?dir)) = Some Dir"
    and 2: "example_tree (project_root (PluginCreator ?dir)) = Some Dir"
    and 3: "example_tree (joinpath (project_root (PluginCreator ?dir)) ''my-plugin'') = None"
    and 4: "example_tree (template_dir (PluginCreator ?dir) @ [''.claude-plugin'', ''plugin.json'']) =
              Some (File (JsonText (JObject
                [(''name'', JString ''plugin-template''),
                 (''description'', JString ''Template''),
                 (''version'', JString ''0.1.0''),
                 (''author'', JObject [(''name'', JString ''Your Name'')])])))"
    and 6: "example_tree (marketplace_file (PluginCreator ?dir)) =
              Some (File (JsonText (JObject
                [(''name'', JString ''plugins''), (''plugins'', JArray [example_entry])])))"
    by (simp_all add: p joinpath_def example_tree_simps example_manifest_def example_registry_def)
  have 5: "map_of [(''name'', JString ''plugin-template''),
                   (''description'', JString ''Template''),
                   (''version'', JString ''0.1.0''),
                   (''author'', JObject [(''name'', JString ''Your Name'')])] ''author'' =
             Some (JObject [(''name'', JString ''Your Name'')])"
    by simp
  have 7: "map_of [(''name'', JString ''plugins''), (''plugins'', JArray [example_entry])] ''plugins'' =
             Some (JArray [example_entry])"
    by simp
  have 8: "\<forall>p \<in> set [example_entry]. \<exists>n. py_getitem p ''name'' = Inr n \<and> n \<noteq> JString ''my-plugin''"
    by (simp add: example_entry_def)
  have r: "[''README.md''] \<noteq> [''.claude-plugin'', ''plugin.json'']"
    by simp
  from my_plugin_scaffold [OF 1 2 3 4 5 6 7 8] r
  show ?thesis
    by (auto simp: p joinpath_def example_tree_simps)
qed

text \<open>
  C8. \<open>run\<close> returns 1 exactly when the validation of the environment failed, or the
  input was confirmed and then the copy of the template failed or the update of the
  manifest failed. It returns 0 exactly when the user declined at the confirmation prompt,
  or copy and update went through and \<open>register_to_marketplace\<close> returned, whether with
  success or with failure. It returns nothing else.
\<close>

theorem run_exit_status:
  "(fst (run os self w) = Inr 1 \<longleftrightarrow>
      \<not> fst (validate_environment os self w) \<or>
      (\<exists>info w1 w2.
         get_user_input os self w = (Inr info, w1) \<and>
         on_tty confirm_loop (say (Summary info) w1) = (Inr ''y'', w2) \<and>
         (fst (create_plugin_directory os self info w2) = None \<or>
          (\<exists>target_dir w3.
             create_plugin_directory os self info w2 = (Some target_dir, w3) \<and>
             \<not> fst (update_plugin_json os target_dir info w3))))) \<and>
   (fst (run os self w) = Inr 0 \<longleftrightarrow>
      fst (validate_environment os self w) \<and>
      (\<exists>info w1 w2.
         get_user_input os self w = (Inr info, w1) \<and>
         (on_tty confirm_loop (say (Summary info) w1) = (Inr ''n'', w2) \<or>
          on_tty confirm_loop (say (Summary info) w1) = (Inr ''y'', w2) \<and>
          (\<exists>target_dir w3 w4 registered.
             create_plugin_directory os self info w2 = (Some target_dir, w3) \<and>
             update_plugin_json os target_dir info w3 = (True, w4) \<and>
             fst (register_to_marketplace os self info w4) = Inr registered)))) \<and>
   (\<forall>code. fst (run os self w) = Inr code \<longrightarrow> code = 0 \<or> code = 1)"
proof (cases "fst (validate_environment os self w)")
  case False
  with run_invalid [OF False] show ?thesis by simp
next
  case v: True
  obtain r1 w1 where g: "get_user_input os self w = (r1, w1)"
    by (cases "get_user_input os self w")
  show ?thesis
  proof (cases r1)
    case (Inl e)
    with run_no_input [OF v] g v show ?thesis by simp
  next
    case (Inr info)
    with g have g': "get_user_input os self w = (Inr info, w1)" by simp
    obtain r2 w2 where c: "on_tty confirm_loop (say (Summary info) w1) = (r2, w2)"
      by (cases "on_tty confirm_loop (say (Summary info) w1)")
    show ?thesis
    proof (cases r2)
      case (Inl e)
      with run_no_answer [OF v g'] c v g' show ?thesis by simp
    next
      case (Inr answer)
      with c have c': "on_tty confirm_loop (say (Summary info) w1) = (Inr answer, w2)" by simp
      from on_tty_confirm_yn [OF c'] consider "answer = ''n''" | "answer = ''y''" by blast
      then show ?thesis
      proof cases
        case 1
        with run_cancelled [OF v g'] c' v g' show ?thesis by simp
      next
        case 2
        with c' have y: "on_tty confirm_loop (say (Summary info) w1) = (Inr ''y'', w2)" by simp
        note r = run_confirmed [OF v g' y]
        obtain d w3 where cr: "create_plugin_directory os self info w2 = (d, w3)"
          by (cases "create_plugin_directory os self info w2")
        show ?thesis
        proof (cases d)
          case None
          with r cr v g' y show ?thesis by simp
        next
          case (Some target_dir)
          obtain u w4 where up: "update_plugin_json os target_dir info w3 = (u, w4)"
            by (cases "update_plugin_json os target_dir info w3")
          show ?thesis
          proof (cases u)
            case False
            with r cr Some up v g' y show ?thesis by simp
          next
            case True
            obtain r5 w5 where rg: "register_to_marketplace os self info w4 = (r5, w5)"
              by (cases "register_to_marketplace os self info w4")
            from r cr Some up True rg v g' y show ?thesis
              by (cases r5) simp_all
          qed
        qed
      qed
    qed
  qed
qed

theorem run_exit_status_witness:
  "fst (run tree_os example_creator (example_world bare_tree my_plugin_session)) = Inr 1 \<and>
   (\<exists>info w1 w2 target_dir w3.
      get_user_input tree_os example_creator (example_world bare_tree my_plugin_session) = (Inr info, w1) \<and>
      on_tty confirm_loop (say (Summary info) w1) = (Inr ''y'', w2) \<and>
      create_plugin_directory tree_os example_creator info w2 = (Some target_dir, w3) \<and>
      fst (update_plugin_json tree_os target_dir info w3) = False)"
proof -
  note t = run_exit_status [of tree_os example_creator "example_world bare_tree my_plugin_session"]
  have e: "\<exists>info w1 w2 target_dir w3.
      get_user_input tree_os example_creator (example_world bare_tree my_plugin_session) = (Inr info, w1) \<and>
      on_tty confirm_loop (say (Summary info) w1) = (Inr ''y'', w2) \<and>
      create_plugin_directory tree_os example_creator info w2 = (Some target_dir, w3) \<and>
      fst (update_plugin_json tree_os target_dir info w3) = False"
    using bare_input bare_confirm bare_create bare_update by blast
  then have "fst (run tree_os example_creator (example_world bare_tree my_plugin_session)) = Inr 1"
    using t by blast
  with e show ?thesis by blast
qed

text \<open>
  C9. When the environment is valid, the four fields were entered and the answer at the
  confirmation prompt is \<^verbatim>\<open>n\<close> (after stripping and lowercasing, and after any number of
  answers that are neither \<^verbatim>\<open>y\<close> nor \<^verbatim>\<open>n\<close>), \<open>run\<close> returns 0 and the file system is
  the one it started from: no directory, no manifest, no registry was written.
\<close>

theorem declined_confirmation_changes_nothing:
  assumes "fst (validate_environment os self w)"
    and "get_user_input os self w = (Inr info, w1)"
    and "fst (on_tty confirm_loop (say (Summary info) w1)) = Inr ''n''"
  shows "fst (run os self w) = Inr 0 \<and> files (snd (run os self w)) = files w"
proof -
  obtain w2 where c: "on_tty confirm_loop (say (Summary info) w1) = (Inr ''n'', w2)"
    using assms(3) by (cases "on_tty confirm_loop (say (Summary info) w1)") simp
  have "files w2 = files w1"
    using on_tty_files [OF c] by simp
  moreover have "files w1 = files w"
    by (rule get_user_input_files [OF assms(2)])
  ultimately show ?thesis
    by (simp add: run_cancelled [OF assms(1,2) c])
qed

theorem declined_confirmation_changes_nothing_witness:
  "fst (run tree_os example_creator (example_world example_tree declined_session)) = Inr 0 \<and>
   files (snd (run tree_os example_creator (example_world example_tree declined_session))) = example_tree"
proof -
  have c: "fst (on_tty confirm_loop (say (Summary new_plugin_info)
              \<lparr>files = example_tree, stdin = [''maybe'', '' n ''],
               console = [Banner, Prompt AskName, Prompt AskDescription, Prompt AskAuthor,
                          Prompt AskVersion]\<rparr>)) = Inr ''n''"
    by (simp add: on_tty_def say_def strip_examples Let_def)
  from declined_confirmation_changes_nothing [OF example_valid declined_input c]
  show ?thesis by (simp add: example_world_def)
qed

end
